theory Spec2Isabelle
  imports Main
begin

section \<open>The pattoo linux agent installer (setup/linux_agent_installation.py)\<close>

text \<open>
  The script is a sequential procedure: it checks the conditions of the installation,
  resolves the directories of the \<open>pattoo\<close> service account, parses the command line
  with \<open>argparse\<close> and calls the installation collaborators of the chosen qualifier.
  The embedding makes every effect of the script a value: what a run writes and whom it
  calls is a list of events, in the order of the run, and how it ends is either a
  returned value or the exception that ended it (\<open>sys.exit\<close> raises \<open>SystemExit\<close>).
\<close>

subsection \<open>Exceptions, events and results\<close>

datatype exn =
    SystemExit nat
  | KeyError
  | AttributeError
  | Failure string

datatype outcome = Returns | Raises exn

datatype stream = Stdout | Stderr

datatype parser_id = P_main | P_install | P_all | P_configuration | P_pip | P_systemd

datatype argerror =
    InvalidChoice string string "string list"
  | UnrecognizedArguments "string list"
  | IgnoredExplicitArgument string
  | AmbiguousOption string "string list"

text \<open>
  What is written to a stream: the line of a \<open>print\<close>, the help text of a parser
  (formatted by \<open>argparse\<close>, kept symbolic), or the banner
  \<open>'\nERROR: {}\n\n'.format(message)\<close> of \<open>_Parser.error\<close>.
\<close>

datatype written =
    Line string
  | Help parser_id
  | ErrorBanner argerror

text \<open>The values an attribute of the parsed namespace can hold.\<close>

datatype pyval = PNone | PStr string | PBool bool

datatype call =
    EnvironmentSetup string
  | ConfigureInstall "string list" string
  | PackagesInstall string string pyval
  | SystemdInstall "string list" string string

datatype event =
    Write stream written
  | Log string
  | RunScript string
  | Call call

type_synonym 'a res = "event list \<times> (exn + 'a)"

definition return :: "'a \<Rightarrow> 'a res" where
  "return x = ([], Inr x)"

definition raise :: "exn \<Rightarrow> 'a res" where
  "raise e = ([], Inl e)"

definition emit :: "event \<Rightarrow> unit res" where
  "emit e = ([e], Inr ())"

text \<open>Sequencing: the second statement runs only when the first has returned.\<close>

definition and_then :: "'a res \<Rightarrow> ('a \<Rightarrow> 'b res) \<Rightarrow> 'b res" where
  "and_then m f =
     (case m of
        (t, Inl e) \<Rightarrow> (t, Inl e)
      | (t, Inr x) \<Rightarrow> (case f x of (t', r) \<Rightarrow> (t @ t', r)))"

definition lift :: "exn + 'a \<Rightarrow> 'a res" where
  "lift r = ([], r)"

text \<open>A call of an external function: the call is recorded, then it returns or raises.\<close>

definition invoke :: "call \<Rightarrow> outcome \<Rightarrow> unit res" where
  "invoke c out = ([Call c], (case out of Returns \<Rightarrow> Inr () | Raises e \<Rightarrow> Inl e))"

text \<open>
  The exit status of the process: 0 when \<open>main\<close> returns, the argument of
  \<open>sys.exit\<close>, and 1 for any other uncaught exception.
\<close>

fun exit_status :: "exn + 'a \<Rightarrow> nat" where
  "exit_status (Inr _) = 0"
| "exit_status (Inl (SystemExit n)) = n"
| "exit_status (Inl _) = 1"

subsection \<open>The world a run sees\<close>

record passwd =
  pw_name :: string
  pw_dir :: string

text \<open>
  The operating system and the imported modules are parameters of a run:
  \<open>sys.argv\<close>, \<open>getpass.getuser()\<close>, \<open>os.getcwd()\<close>, the user database read by
  \<open>pwd.getpwnam\<close>, whether \<open>import virtualenv\<close> succeeds, \<open>os.path.expanduser('~')\<close>,
  the module level value \<open>ROOT_DIR\<close>, and what each collaborator
  (\<open>configure.install\<close>, \<open>packages.install\<close>, \<open>systemd.install\<close>,
  \<open>environment.environment_setup\<close>) does when called with given arguments.
\<close>

record world =
  argv :: "string list"
  getuser :: string
  getcwd :: string
  passwd_db :: "string \<rightharpoonup> passwd"
  virtualenv_importable :: bool
  expanduser_home :: string
  ROOT_DIR :: string
  configure_install :: "string list \<Rightarrow> string \<Rightarrow> outcome"
  packages_install :: "string \<Rightarrow> string \<Rightarrow> pyval \<Rightarrow> outcome"
  systemd_install :: "string list \<Rightarrow> string \<Rightarrow> string \<Rightarrow> outcome"
  environment_setup :: "string \<Rightarrow> outcome"

subsection \<open>Library functions the script uses\<close>

text \<open>\<open>s.startswith(p)\<close>.\<close>

definition startswith :: "string \<Rightarrow> string \<Rightarrow> bool" where
  "startswith s p = (take (length p) s = p)"

text \<open>\<open>os.path.join(a, b)\<close> of \<open>posixpath\<close>, for two components.\<close>

definition os_path_join :: "string \<Rightarrow> string \<Rightarrow> string" where
  "os_path_join a b =
     (if startswith b ''/'' then b
      else if a = [] \<or> last a = CHR ''/'' then a @ b
      else a @ ''/'' @ b)"

text \<open>\<open>pwd.getpwnam(name)\<close>: the record of the user, \<open>KeyError\<close> when there is none.\<close>

definition pwd_getpwnam :: "world \<Rightarrow> string \<Rightarrow> exn + passwd" where
  "pwd_getpwnam w name = (case passwd_db w name of None \<Rightarrow> Inl KeyError | Some p \<Rightarrow> Inr p)"

text \<open>
  The module level value
  \<open>default_path = '{}/.local/lib/python3.6/site-packages'.format(os.path.expanduser('~'))\<close>.
\<close>

definition default_path :: "world \<Rightarrow> string" where
  "default_path w = expanduser_home w @ ''/.local/lib/python3.6/site-packages''"

text \<open>
  Modelled from the spec: \<open>shared.log\<close> of \<open>_pattoo_agent_linux/shared.py\<close>, which is
  not among the sources. The specification says of the prerequisite checker that it
  "logs and continues without halting" and "signals issues via logging": the call
  emits the message as a log entry and returns.
\<close>

definition shared_log :: "string \<Rightarrow> unit res" where
  "shared_log message = emit (Log message)"

text \<open>
  Modelled from the spec: \<open>shared.run_script\<close> of \<open>_pattoo_agent_linux/shared.py\<close>,
  which is not among the sources. The specification says that, when no
  virtual-environment tool is importable, the checker "installs one as a side effect":
  the call runs the command line and returns.
\<close>

definition shared_run_script :: "string \<Rightarrow> unit res" where
  "shared_run_script cli_string = emit (RunScript cli_string)"

subsection \<open>installation_checks\<close>

definition installation_checks :: "world \<Rightarrow> unit res" where
  "installation_checks w =
     (if getuser w \<noteq> ''travis'' then
        and_then
          (if getuser w \<noteq> ''root''
           then shared_log
             ''You are currently not running the script as root.Run as root to continue''
           else return ())
          (\<lambda>_. and_then
            (if startswith (getcwd w) ''/home''
             then shared_log
               ''You cloned the repository in a home related directory, please clone in a non-home directory to continue''
             else return ())
            (\<lambda>_. if virtualenv_importable w then return ()
                  else and_then
                    (emit (Write Stdout
                       (Line ''virtualenv is not installed. Installing virtualenv'')))
                    (\<lambda>_. shared_run_script
                       (''pip3 install virtualenv -t '' @ default_path w))))
      else return ())"

subsection \<open>get_pattoo_home\<close>

text \<open>Only \<open>KeyError\<close> is caught; any other exception of the lookup would propagate.\<close>

definition get_pattoo_home :: "world \<Rightarrow> exn + string" where
  "get_pattoo_home w =
     (case (case pwd_getpwnam w ''pattoo'' of
              Inr p \<Rightarrow> Inr (pw_dir p)
            | Inl KeyError \<Rightarrow> Inr ''/home/pattoo''
            | Inl e \<Rightarrow> Inl e) of
        Inl e \<Rightarrow> Inl e
      | Inr pattoo_home \<Rightarrow>
          Inr (if pattoo_home = ''/nonexistent'' then ''/home/pattoo'' else pattoo_home))"

subsection \<open>The command line parser built by Parser.args and _Install\<close>

text \<open>
  \<open>Parser.args\<close> builds a tree of \<open>_Parser\<close> objects (\<open>add_subparsers\<close> creates the
  sub-parsers with the class of their parent): the main parser with the sub-command
  \<open>install\<close> (\<open>dest='action'\<close>), the \<open>install\<close> parser with one sub-parser for each
  public method of \<open>_Install\<close> (\<open>dest='qualifier'\<close>), registered in the order of
  \<open>dir(self)\<close>, which is alphabetical: \<open>all\<close>, \<open>configuration\<close>, \<open>pip\<close>, \<open>systemd\<close>.
  Every parser has the option \<open>-h/--help\<close> that \<open>argparse\<close> adds; the parsers of
  \<open>all\<close> and \<open>pip\<close> also have \<open>--verbose\<close> with \<open>action='store_true'\<close>.
\<close>

type_synonym namespace = "string \<rightharpoonup> pyval"

text \<open>
  The actions of the options: the help action, and \<open>store_true\<close> with destination
  \<open>verbose\<close>, the only other option these parsers have.
\<close>

datatype optaction = HelpAction | StoreTrueVerbose

definition option_string_actions :: "parser_id \<Rightarrow> (string \<times> optaction) list" where
  "option_string_actions p =
     [(''-h'', HelpAction), (''--help'', HelpAction)] @
     (if p = P_all \<or> p = P_pip then [(''--verbose'', StoreTrueVerbose)] else [])"

definition Install_qualifiers :: "(string \<times> parser_id) list" where
  "Install_qualifiers =
     [(''all'', P_all), (''configuration'', P_configuration), (''pip'', P_pip),
      (''systemd'', P_systemd)]"

fun subparsers :: "parser_id \<Rightarrow> (string \<times> (string \<times> parser_id) list) option" where
  "subparsers P_main = Some (''action'', [(''install'', P_install)])"
| "subparsers P_install = Some (''qualifier'', Install_qualifiers)"
| "subparsers _ = None"

text \<open>
  The defaults \<open>parse_known_args\<close> puts into a fresh namespace: \<open>None\<close> for the
  destination of the sub-parsers action, \<open>False\<close> for a \<open>store_true\<close> option; the help
  action has no destination.
\<close>

definition defaults :: "parser_id \<Rightarrow> namespace" where
  "defaults p =
     map_of ((case subparsers p of None \<Rightarrow> [] | Some (dest, _) \<Rightarrow> [(dest, PNone)]) @
             (if p = P_all \<or> p = P_pip then [(''verbose'', PBool False)] else []))"

subsection \<open>argparse: telling options from arguments\<close>

text \<open>
  The model follows \<open>ArgumentParser\<close> of CPython's \<open>argparse\<close> (read in the 3.11
  sources) for parsers of this shape: prefix character \<open>-\<close>, abbreviations allowed,
  options without arguments, at most one positional, the sub-parsers action, which is
  not required. Argument strings are taken as ASCII.
\<close>

text \<open>\<open>s.partition('=')\<close>: the part before, whether there is a separator, the part after.\<close>

definition partition_eq :: "string \<Rightarrow> string \<times> bool \<times> string" where
  "partition_eq s =
     (takeWhile (\<lambda>c. c \<noteq> CHR ''='') s, CHR ''='' \<in> set s,
      tl (dropWhile (\<lambda>c. c \<noteq> CHR ''='') s))"

definition is_digit :: "char \<Rightarrow> bool" where
  "is_digit c = (c \<in> set ''0123456789'')"

text \<open>
  \<open>_negative_number_matcher\<close>, the regular expression \<open>^-\d+$|^-\d*\.\d+$\<close> matched at
  the start of the string; \<open>$\<close> also matches before a final newline.
\<close>

definition negative_number :: "string \<Rightarrow> bool" where
  "negative_number s =
     (let s' = (if s \<noteq> [] \<and> last s = CHR 0x0A then butlast s else s) in
      s' \<noteq> [] \<and> hd s' = CHR ''-'' \<and>
      (let r = dropWhile is_digit (tl s') in
       (r = [] \<and> tl s' \<noteq> []) \<or>
       (r \<noteq> [] \<and> hd r = CHR ''.'' \<and> tl r \<noteq> [] \<and> list_all is_digit (tl r))))"

text \<open>
  An option tuple of \<open>_parse_optional\<close>: the action (\<open>None\<close> for an option the parser
  does not know), the option string, whether the separator is \<open>=\<close>, and the explicit
  argument.
\<close>

type_synonym option_tuple = "optaction option \<times> string \<times> bool \<times> string option"

definition get_option_tuples :: "parser_id \<Rightarrow> string \<Rightarrow> option_tuple list" where
  "get_option_tuples p option_string =
     (if startswith option_string ''--'' then
        (case partition_eq option_string of (option_prefix, sep, explicit_arg) \<Rightarrow>
           concat (map (\<lambda>(os, action).
             if startswith os option_prefix
             then [(Some action, os, sep, if sep then Some explicit_arg else None)]
             else []) (option_string_actions p)))
      else
        concat (map (\<lambda>(os, action).
          if os = take 2 option_string
          then [(Some action, os, False, Some (drop 2 option_string))]
          else if startswith os option_string then [(Some action, os, False, None)]
          else []) (option_string_actions p)))"

datatype parse_exit = HelpExit parser_id | ErrorExit parser_id argerror

text \<open>\<open>_parse_optional\<close>: \<open>None\<close> for a positional argument.\<close>

definition parse_optional :: "parser_id \<Rightarrow> string \<Rightarrow> parse_exit + option_tuple option" where
  "parse_optional p arg_string =
     (if arg_string = [] then Inr None
      else if hd arg_string \<noteq> CHR ''-'' then Inr None
      else case map_of (option_string_actions p) arg_string of
        Some action \<Rightarrow> Inr (Some (Some action, arg_string, False, None))
      | None \<Rightarrow>
        if length arg_string = 1 then Inr None
        else case partition_eq arg_string of (option_string, sep, explicit_arg) \<Rightarrow>
          (case (if sep then map_of (option_string_actions p) option_string else None) of
             Some action \<Rightarrow> Inr (Some (Some action, option_string, True, Some explicit_arg))
           | None \<Rightarrow>
             (let option_tuples = get_option_tuples p arg_string in
              if length option_tuples > 1
              then Inl (ErrorExit p (AmbiguousOption arg_string
                     (map (\<lambda>(action, os, sep, explicit_arg). os) option_tuples)))
              else if length option_tuples = 1 then Inr (Some (hd option_tuples))
              else if negative_number arg_string then Inr None
              else if CHR '' '' \<in> set arg_string then Inr None
              else Inr (Some (None, arg_string, False, None)))))"

text \<open>
  The pattern of the argument strings: \<open>O\<close> for an option, \<open>A\<close> for an argument,
  \<open>-\<close> for the first \<open>--\<close>, after which everything is an argument.
\<close>

datatype tok = TokA | TokDash | TokO option_tuple

fun classify :: "parser_id \<Rightarrow> string list \<Rightarrow> parse_exit + (tok \<times> string) list" where
  "classify p [] = Inr []"
| "classify p (arg_string # rest) =
     (if arg_string = ''--'' then Inr ((TokDash, arg_string) # map (\<lambda>s. (TokA, s)) rest)
      else case parse_optional p arg_string of
        Inl x \<Rightarrow> Inl x
      | Inr option_tuple \<Rightarrow>
          (case classify p rest of
             Inl x \<Rightarrow> Inl x
           | Inr toks \<Rightarrow>
               Inr ((case option_tuple of None \<Rightarrow> TokA | Some t \<Rightarrow> TokO t, arg_string) # toks)))"

subsection \<open>argparse: consuming options and the sub-command\<close>

text \<open>
  The loop of \<open>consume_optional\<close>. Every option of these parsers takes no argument
  (\<open>nargs=0\<close>), so \<open>match_argument\<close> gives 0: an explicit argument of a single-dash
  option is read as further single-dash options (\<open>-hh\<close>), one of a double-dash option
  is an error. The result is the list of actions to take, in order, and the strings
  added to the extras. An option string here comes from the parser's table or is a
  dash and one character, so \<open>option_string[1] not in chars\<close> is that it does not
  start with \<open>--\<close>.
\<close>

function consume_optional_loop ::
  "parser_id \<Rightarrow> optaction \<Rightarrow> string \<Rightarrow> bool \<Rightarrow> string option \<Rightarrow> optaction list
     \<Rightarrow> argerror + (optaction list \<times> string list)" where
  "consume_optional_loop p action option_string sep None action_tuples =
     Inr (action_tuples @ [action], [])"
| "consume_optional_loop p action option_string sep (Some explicit_arg) action_tuples =
     (if \<not> startswith option_string ''--'' \<and> explicit_arg \<noteq> [] then
        if sep \<or> hd explicit_arg = CHR ''-''
        then Inl (IgnoredExplicitArgument explicit_arg)
        else
          (case map_of (option_string_actions p) [CHR ''-'', hd explicit_arg] of
             Some action' \<Rightarrow>
               (if tl explicit_arg = [] then
                  consume_optional_loop p action' [CHR ''-'', hd explicit_arg] False None
                    (action_tuples @ [action])
                else if hd (tl explicit_arg) = CHR ''='' then
                  consume_optional_loop p action' [CHR ''-'', hd explicit_arg] True
                    (Some (tl (tl explicit_arg))) (action_tuples @ [action])
                else
                  consume_optional_loop p action' [CHR ''-'', hd explicit_arg] False
                    (Some (tl explicit_arg)) (action_tuples @ [action]))
           | None \<Rightarrow> Inr (action_tuples @ [action], [CHR ''-'' # explicit_arg]))
      else Inl (IgnoredExplicitArgument explicit_arg))"
  by pat_completeness auto
termination
  by (relation "measure (\<lambda>(p, action, option_string, sep, explicit_arg, action_tuples).
        case explicit_arg of None \<Rightarrow> 0 | Some e \<Rightarrow> Suc (length e))") auto

text \<open>
  \<open>take_action\<close> for the collected actions: the help action prints the help and exits,
  a \<open>store_true\<close> action sets its destination.
\<close>

fun take_actions :: "parser_id \<Rightarrow> optaction list \<Rightarrow> namespace \<Rightarrow> parse_exit + namespace" where
  "take_actions p [] ns = Inr ns"
| "take_actions p (HelpAction # actions) ns = Inl (HelpExit p)"
| "take_actions p (StoreTrueVerbose # actions) ns =
     take_actions p actions (ns(''verbose'' \<mapsto> PBool True))"

text \<open>
  The main loop of \<open>_parse_known_args\<close>, from left to right. An argument (or \<open>--\<close>
  followed by one) matches the pattern \<open>-*A[-AO]*\<close> of the sub-parsers action, which
  then takes all the remaining strings; where the parser has no sub-parsers the string
  goes to the extras. The result is the namespace, the extras and the strings given to
  the sub-parsers action, if it was reached.
\<close>

fun consume ::
  "parser_id \<Rightarrow> (tok \<times> string) list \<Rightarrow> namespace \<Rightarrow> string list
     \<Rightarrow> parse_exit + (namespace \<times> string list \<times> string list option)" where
  "consume p [] ns extras = Inr (ns, extras, None)"
| "consume p ((TokO (None, os, sep, explicit_arg), s) # rest) ns extras =
     consume p rest ns (extras @ [s])"
| "consume p ((TokO (Some action, os, sep, explicit_arg), s) # rest) ns extras =
     (case consume_optional_loop p action os sep explicit_arg [] of
        Inl err \<Rightarrow> Inl (ErrorExit p err)
      | Inr (action_tuples, xs) \<Rightarrow>
          (case take_actions p action_tuples ns of
             Inl x \<Rightarrow> Inl x
           | Inr ns' \<Rightarrow> consume p rest ns' (extras @ xs)))"
| "consume p ((t, s) # rest) ns extras =
     (if subparsers p \<noteq> None \<and> (t = TokA \<or> rest \<noteq> [])
      then Inr (ns, extras, Some (s # map snd rest))
      else consume p rest ns (extras @ [s]))"

text \<open>
  \<open>parse_known_args\<close> of parser \<open>p\<close>, given the same function for the parsers below
  it. The sub-parsers action checks its first string against the choices
  (\<open>_get_values\<close>, which keeps a leading \<open>--\<close> for this action), sets its destination,
  parses the other strings with the chosen parser in a fresh namespace and copies that
  namespace over the own one; the extras of the sub-parser follow the own ones. An
  \<open>ArgumentError\<close> goes to the \<open>error\<close> method of the parser that raised it.
\<close>

definition parse_known_args_with ::
  "(parser_id \<Rightarrow> string list \<Rightarrow> parse_exit + (namespace \<times> string list))
     \<Rightarrow> parser_id \<Rightarrow> string list \<Rightarrow> parse_exit + (namespace \<times> string list)" where
  "parse_known_args_with sub p arg_strings =
     (case classify p arg_strings of
        Inl x \<Rightarrow> Inl x
      | Inr toks \<Rightarrow>
          (case consume p toks (defaults p) [] of
             Inl x \<Rightarrow> Inl x
           | Inr (ns, extras, None) \<Rightarrow> Inr (ns, extras)
           | Inr (ns, extras, Some vals) \<Rightarrow>
               (case subparsers p of
                  None \<Rightarrow> Inr (ns, extras)
                | Some (dest, name_parser_map) \<Rightarrow>
                    (case map_of name_parser_map (hd vals) of
                       None \<Rightarrow>
                         Inl (ErrorExit p
                           (InvalidChoice dest (hd vals) (map fst name_parser_map)))
                     | Some parser \<Rightarrow>
                         (case sub parser (tl vals) of
                            Inl x \<Rightarrow> Inl x
                          | Inr (subnamespace, arg_strings') \<Rightarrow>
                              Inr ((ns(dest \<mapsto> PStr (hd vals))) ++ subnamespace,
                                   extras @ arg_strings'))))))"

text \<open>The parsers are nested three deep: main, \<open>install\<close>, qualifier.\<close>

definition no_subparser :: "parser_id \<Rightarrow> string list \<Rightarrow> parse_exit + (namespace \<times> string list)" where
  "no_subparser p arg_strings = Inr (Map.empty, arg_strings)"

definition parse_known_args ::
  "parser_id \<Rightarrow> string list \<Rightarrow> parse_exit + (namespace \<times> string list)" where
  "parse_known_args =
     parse_known_args_with (parse_known_args_with (parse_known_args_with no_subparser))"

text \<open>\<open>parser.parse_args()\<close> of the main parser: extras left over are an error.\<close>

definition parse_args :: "string list \<Rightarrow> parse_exit + namespace" where
  "parse_args args =
     (case parse_known_args P_main args of
        Inl x \<Rightarrow> Inl x
      | Inr (ns, extras) \<Rightarrow>
          if extras \<noteq> [] then Inl (ErrorExit P_main (UnrecognizedArguments extras))
          else Inr ns)"

subsection \<open>_Parser.error and Parser.args\<close>

text \<open>
  \<open>_Parser.error\<close>: the banner goes to standard error, then \<open>self.print_help()\<close> is
  called without a file, which for \<open>argparse\<close> is standard output, then \<open>sys.exit(2)\<close>.
\<close>

definition Parser_error :: "parser_id \<Rightarrow> argerror \<Rightarrow> 'a res" where
  "Parser_error p message =
     and_then (emit (Write Stderr (ErrorBanner message)))
       (\<lambda>_. and_then (emit (Write Stdout (Help p)))
         (\<lambda>_. raise (SystemExit 2)))"

text \<open>The help action of \<open>argparse\<close>: \<open>parser.print_help()\<close>, then \<open>parser.exit()\<close>.\<close>

definition help_action :: "parser_id \<Rightarrow> 'a res" where
  "help_action p = and_then (emit (Write Stdout (Help p))) (\<lambda>_. raise (SystemExit 0))"

text \<open>
  How a parse that did not return ends: argparse writes nothing before it exits, so
  the effects of \<open>parse_args\<close> are those of the exit it took.
\<close>

fun run_parse :: "parse_exit + 'a \<Rightarrow> 'a res" where
  "run_parse (Inr x) = return x"
| "run_parse (Inl (HelpExit p)) = help_action p"
| "run_parse (Inl (ErrorExit p message)) = Parser_error p message"

text \<open>\<open>Parser.args\<close>: the parsed namespace and the main parser.\<close>

definition Parser_args :: "world \<Rightarrow> (namespace \<times> parser_id) res" where
  "Parser_args w =
     (if length (argv w) = 1 then
        and_then (emit (Write Stderr (Help P_main))) (\<lambda>_. raise (SystemExit 1))
      else
        and_then (run_parse (parse_args (drop 1 (argv w))))
          (\<lambda>args. return (args, P_main)))"

subsection \<open>main\<close>

definition daemon_list :: "string list" where
  "daemon_list =
     [''pattoo_agent_linux_autonomousd'', ''pattoo_agent_linux_spoked'',
      ''pattoo_agent_linux_hubd'']"

text \<open>Reading an attribute of the namespace: \<open>AttributeError\<close> when it is not set.\<close>

definition getattr :: "namespace \<Rightarrow> string \<Rightarrow> exn + pyval" where
  "getattr ns name = (case ns name of None \<Rightarrow> Inl AttributeError | Some v \<Rightarrow> Inr v)"

definition main :: "world \<Rightarrow> unit res" where
  "main w =
     (let template_dir = os_path_join (ROOT_DIR w) ''setup/systemd/system'' in
      and_then (installation_checks w) (\<lambda>_.
      and_then
        (if getuser w \<noteq> ''travis'' then
           and_then (lift (get_pattoo_home w)) (\<lambda>pattoo_home.
           let venv_dir = os_path_join pattoo_home ''pattoo-venv'' in
           and_then (invoke (EnvironmentSetup venv_dir) (environment_setup w venv_dir)) (\<lambda>_.
           let venv_interpreter = os_path_join venv_dir ''bin/python3'' in
           return (pattoo_home, venv_dir, venv_interpreter @ '' '' @ ROOT_DIR w)))
         else
           return (os_path_join (expanduser_home w) ''pattoo'', default_path w, ROOT_DIR w))
        (\<lambda>(pattoo_home, venv_dir, installation_dir).
      and_then (Parser_args w) (\<lambda>(args, parser).
      and_then (lift (getattr args ''action'')) (\<lambda>action.
      if action = PStr ''install'' then
        and_then (lift (getattr args ''qualifier'')) (\<lambda>qualifier.
        and_then
          (if qualifier = PStr ''all'' then
             and_then (emit (Write Stdout (Line ''Installing everything''))) (\<lambda>_.
             and_then (invoke (ConfigureInstall daemon_list pattoo_home)
                         (configure_install w daemon_list pattoo_home)) (\<lambda>_.
             and_then (lift (getattr args ''verbose'')) (\<lambda>verbose.
             and_then (invoke (PackagesInstall (ROOT_DIR w) venv_dir verbose)
                         (packages_install w (ROOT_DIR w) venv_dir verbose)) (\<lambda>_.
             invoke (SystemdInstall daemon_list template_dir installation_dir)
               (systemd_install w daemon_list template_dir installation_dir)))))
           else if qualifier = PStr ''configuration'' then
             and_then (emit (Write Stdout (Line ''Installing configuration''))) (\<lambda>_.
             invoke (ConfigureInstall daemon_list pattoo_home)
               (configure_install w daemon_list pattoo_home))
           else if qualifier = PStr ''pip'' then
             and_then (emit (Write Stdout (Line ''Installing pip packages''))) (\<lambda>_.
             and_then (lift (getattr args ''verbose'')) (\<lambda>verbose.
             invoke (PackagesInstall (ROOT_DIR w) venv_dir verbose)
               (packages_install w (ROOT_DIR w) venv_dir verbose)))
           else if qualifier = PStr ''systemd'' then
             and_then (emit (Write Stdout (Line ''Installing and running system daemons'')))
               (\<lambda>_.
             invoke (SystemdInstall daemon_list template_dir installation_dir)
               (systemd_install w daemon_list template_dir installation_dir))
           else
             and_then (emit (Write Stderr (Help parser))) (\<lambda>_. raise (SystemExit 1)))
          (\<lambda>_. emit (Write Stdout (Line ''Done''))))
      else return ())))))"

subsection \<open>The sections of main\<close>

text \<open>
  The two sections of \<open>main\<close> around the parsing of the command line, "Setup virtual
  environment" and "Process CLI options", as functions of their own; \<open>main\<close> is the
  sequence of \<open>installation_checks\<close>, the first section, \<open>Parser.args\<close> and the
  second section (lemma \<open>main_sections\<close>).
\<close>

definition main_virtualenv :: "world \<Rightarrow> (string \<times> string \<times> string) res" where
  "main_virtualenv w =
     (if getuser w \<noteq> ''travis'' then
        and_then (lift (get_pattoo_home w)) (\<lambda>pattoo_home.
        let venv_dir = os_path_join pattoo_home ''pattoo-venv'' in
        and_then (invoke (EnvironmentSetup venv_dir) (environment_setup w venv_dir)) (\<lambda>_.
        let venv_interpreter = os_path_join venv_dir ''bin/python3'' in
        return (pattoo_home, venv_dir, venv_interpreter @ '' '' @ ROOT_DIR w)))
      else
        return (os_path_join (expanduser_home w) ''pattoo'', default_path w, ROOT_DIR w))"

definition main_process ::
  "world \<Rightarrow> string \<Rightarrow> string \<Rightarrow> string \<Rightarrow> namespace \<Rightarrow> parser_id \<Rightarrow> unit res" where
  "main_process w pattoo_home venv_dir installation_dir args parser =
     (let template_dir = os_path_join (ROOT_DIR w) ''setup/systemd/system'' in
      and_then (lift (getattr args ''action'')) (\<lambda>action.
      if action = PStr ''install'' then
        and_then (lift (getattr args ''qualifier'')) (\<lambda>qualifier.
        and_then
          (if qualifier = PStr ''all'' then
             and_then (emit (Write Stdout (Line ''Installing everything''))) (\<lambda>_.
             and_then (invoke (ConfigureInstall daemon_list pattoo_home)
                         (configure_install w daemon_list pattoo_home)) (\<lambda>_.
             and_then (lift (getattr args ''verbose'')) (\<lambda>verbose.
             and_then (invoke (PackagesInstall (ROOT_DIR w) venv_dir verbose)
                         (packages_install w (ROOT_DIR w) venv_dir verbose)) (\<lambda>_.
             invoke (SystemdInstall daemon_list template_dir installation_dir)
               (systemd_install w daemon_list template_dir installation_dir)))))
           else if qualifier = PStr ''configuration'' then
             and_then (emit (Write Stdout (Line ''Installing configuration''))) (\<lambda>_.
             invoke (ConfigureInstall daemon_list pattoo_home)
               (configure_install w daemon_list pattoo_home))
           else if qualifier = PStr ''pip'' then
             and_then (emit (Write Stdout (Line ''Installing pip packages''))) (\<lambda>_.
             and_then (lift (getattr args ''verbose'')) (\<lambda>verbose.
             invoke (PackagesInstall (ROOT_DIR w) venv_dir verbose)
               (packages_install w (ROOT_DIR w) venv_dir verbose)))
           else if qualifier = PStr ''systemd'' then
             and_then (emit (Write Stdout (Line ''Installing and running system daemons'')))
               (\<lambda>_.
             invoke (SystemdInstall daemon_list template_dir installation_dir)
               (systemd_install w daemon_list template_dir installation_dir))
           else
             and_then (emit (Write Stderr (Help parser))) (\<lambda>_. raise (SystemExit 1)))
          (\<lambda>_. emit (Write Stdout (Line ''Done''))))
      else return ()))"

subsection \<open>Notions the properties are stated with\<close>

text \<open>The calls of the three installation collaborators.\<close>

fun is_install_call :: "event \<Rightarrow> bool" where
  "is_install_call (Call (ConfigureInstall _ _)) = True"
| "is_install_call (Call (PackagesInstall _ _ _)) = True"
| "is_install_call (Call (SystemdInstall _ _ _)) = True"
| "is_install_call _ = False"

fun is_log :: "event \<Rightarrow> bool" where
  "is_log (Log _) = True"
| "is_log _ = False"

text \<open>What goes to standard output.\<close>

fun to_stdout :: "event \<Rightarrow> bool" where
  "to_stdout (Write Stdout _) = True"
| "to_stdout _ = False"

text \<open>What the world answers to a call.\<close>

fun outcome_of :: "world \<Rightarrow> call \<Rightarrow> outcome" where
  "outcome_of w (EnvironmentSetup d) = environment_setup w d"
| "outcome_of w (ConfigureInstall ds h) = configure_install w ds h"
| "outcome_of w (PackagesInstall r d v) = packages_install w r d v"
| "outcome_of w (SystemdInstall ds t i) = systemd_install w ds t i"

text \<open>
  A sequence of steps, each a call with what it does: the calls that are made are those
  up to the first one that raises, and the sequence ends with that exception.
\<close>

fun steps_made :: "(call \<times> outcome) list \<Rightarrow> call list" where
  "steps_made [] = []"
| "steps_made ((c, Returns) # steps) = c # steps_made steps"
| "steps_made ((c, Raises e) # steps) = [c]"

fun steps_result :: "(call \<times> outcome) list \<Rightarrow> exn + unit" where
  "steps_result [] = Inr ()"
| "steps_result ((c, Returns) # steps) = steps_result steps"
| "steps_result ((c, Raises e) # steps) = Inl e"

abbreviation done_message :: event where
  "done_message \<equiv> Write Stdout (Line ''Done'')"

text \<open>
  A world for the examples: root in the installation directory, no \<open>pattoo\<close> user,
  \<open>virtualenv\<close> importable, every collaborator returning.
\<close>

definition example_world :: world where
  "example_world =
     \<lparr> argv = [''setup/linux_agent_installation.py''],
       getuser = ''root'',
       getcwd = ''/opt/pattoo-agent-linux'',
       passwd_db = Map.empty,
       virtualenv_importable = True,
       expanduser_home = ''/root'',
       ROOT_DIR = ''/opt/pattoo-agent-linux'',
       configure_install = (\<lambda>_ _. Returns),
       packages_install = (\<lambda>_ _ _. Returns),
       systemd_install = (\<lambda>_ _ _. Returns),
       environment_setup = (\<lambda>_. Returns) \<rparr>"

text \<open>
  The three installation collaborators, the ones a trace calls, in order, and the steps
  the specification lists for each qualifier (section 4.4): \<open>all\<close> writes the
  configuration, installs the packages, then installs the systemd units; each other
  qualifier has its one step.
\<close>

datatype collaborator = Configure | Packages | Systemd

fun install_kinds :: "event list \<Rightarrow> collaborator list" where
  "install_kinds [] = []"
| "install_kinds (Call (ConfigureInstall _ _) # es) = Configure # install_kinds es"
| "install_kinds (Call (PackagesInstall _ _ _) # es) = Packages # install_kinds es"
| "install_kinds (Call (SystemdInstall _ _ _) # es) = Systemd # install_kinds es"
| "install_kinds (_ # es) = install_kinds es"

definition qualifier_steps :: "string \<Rightarrow> collaborator list" where
  "qualifier_steps q =
     (if q = ''all'' then [Configure, Packages, Systemd]
      else if q = ''configuration'' then [Configure]
      else if q = ''pip'' then [Packages]
      else if q = ''systemd'' then [Systemd]
      else [])"

text \<open>
  The calls \<open>main\<close> makes for a qualifier, with the arguments it passes, and the line it
  prints first; \<open>answered\<close> pairs each call with what the world does on it.
\<close>

definition qualifier_calls ::
  "world \<Rightarrow> string \<Rightarrow> string \<Rightarrow> string \<Rightarrow> pyval \<Rightarrow> string \<Rightarrow> call list" where
  "qualifier_calls w pattoo_home venv_dir installation_dir verbose q =
     (if q = ''all'' then
        [ConfigureInstall daemon_list pattoo_home,
         PackagesInstall (ROOT_DIR w) venv_dir verbose,
         SystemdInstall daemon_list (os_path_join (ROOT_DIR w) ''setup/systemd/system'')
           installation_dir]
      else if q = ''configuration'' then [ConfigureInstall daemon_list pattoo_home]
      else if q = ''pip'' then [PackagesInstall (ROOT_DIR w) venv_dir verbose]
      else if q = ''systemd'' then
        [SystemdInstall daemon_list (os_path_join (ROOT_DIR w) ''setup/systemd/system'')
           installation_dir]
      else [])"

definition banner :: "string \<Rightarrow> string" where
  "banner q =
     (if q = ''all'' then ''Installing everything''
      else if q = ''configuration'' then ''Installing configuration''
      else if q = ''pip'' then ''Installing pip packages''
      else ''Installing and running system daemons'')"

definition answered :: "world \<Rightarrow> call list \<Rightarrow> (call \<times> outcome) list" where
  "answered w cs = map (\<lambda>c. (c, outcome_of w c)) cs"

text \<open>
  Two namespaces that differ at most in \<open>verbose\<close>, which then is \<open>True\<close>: what
  the options of a parser can change.
\<close>

definition verbose_only :: "namespace \<Rightarrow> namespace \<Rightarrow> bool" where
  "verbose_only ns ns' =
     ((\<forall>k. k \<noteq> ''verbose'' \<longrightarrow> ns' k = ns k) \<and>
      (ns' ''verbose'' = ns ''verbose'' \<or> ns' ''verbose'' = Some (PBool True)))"

text \<open>The example world, run with the given command line arguments.\<close>

definition run_with :: "string list \<Rightarrow> world" where
  "run_with args = example_world\<lparr>argv := ''setup/linux_agent_installation.py'' # args\<rparr>"

text \<open>
  The same command line on the CI account \<open>travis\<close>, and a user \<open>alice\<close> who runs
  the script from a clone under her home directory, without \<open>virtualenv\<close>.
\<close>

definition travis_world :: world where
  "travis_world =
     example_world\<lparr>getuser := ''travis'', expanduser_home := ''/home/travis'',
       argv := [''setup/linux_agent_installation.py'', ''install'', ''configuration'']\<rparr>"

definition home_user_world :: world where
  "home_user_world =
     example_world\<lparr>getuser := ''alice'', getcwd := ''/home/alice/pattoo-agent-linux'',
       virtualenv_importable := False\<rparr>"

section \<open>Properties\<close>

subsection \<open>Sequencing\<close>

lemma and_then_return [simp]: "and_then (return x) f = f x"
  by (simp add: and_then_def return_def split: prod.splits)

lemma and_then_raise [simp]: "and_then (raise e) f = raise e"
  by (simp add: and_then_def raise_def)

lemma and_then_Inl [simp]: "and_then (t, Inl e) f = (t, Inl e)"
  by (simp add: and_then_def)

lemma and_then_Inr [simp]: "and_then (t, Inr x) f = (t @ fst (f x), snd (f x))"
  by (simp add: and_then_def split: prod.splits)

lemma and_then_emit [simp]: "and_then (emit e) f = (e # fst (f ()), snd (f ()))"
  by (simp add: emit_def)

lemma and_then_lift_Inr [simp]: "and_then (lift (Inr x)) f = f x"
  by (simp add: lift_def)

lemma and_then_lift_Inl [simp]: "and_then (lift (Inl e)) f = ([], Inl e)"
  by (simp add: lift_def)

lemma and_then_invoke_Returns [simp]:
  "and_then (invoke c Returns) f = (Call c # fst (f ()), snd (f ()))"
  by (simp add: invoke_def)

lemma and_then_invoke_Raises [simp]:
  "and_then (invoke c (Raises e)) f = ([Call c], Inl e)"
  by (simp add: invoke_def)

lemma and_then_fst_snd:
  "and_then m f =
     (case snd m of Inl e \<Rightarrow> (fst m, Inl e)
      | Inr x \<Rightarrow> (fst m @ fst (f x), snd (f x)))"
  by (cases m) (simp add: and_then_def split: sum.splits prod.splits)

lemma main_sections:
  "main w =
     and_then (installation_checks w) (\<lambda>_.
     and_then (main_virtualenv w) (\<lambda>(pattoo_home, venv_dir, installation_dir).
     and_then (Parser_args w) (\<lambda>(args, parser).
       main_process w pattoo_home venv_dir installation_dir args parser)))"
  by (simp add: main_def main_virtualenv_def main_process_def Let_def)

subsection \<open>get_pattoo_home\<close>

lemma get_pattoo_home_value:
  "get_pattoo_home w =
     Inr (case passwd_db w ''pattoo'' of
            None \<Rightarrow> ''/home/pattoo''
          | Some p \<Rightarrow> if pw_dir p = ''/nonexistent'' then ''/home/pattoo'' else pw_dir p)"
  by (simp add: get_pattoo_home_def pwd_getpwnam_def split: option.splits)

text \<open>
  C4: for every state of the user database \<open>get_pattoo_home\<close> returns, never raising:
  \<open>/home/pattoo\<close> when there is no \<open>pattoo\<close> record, \<open>/home/pattoo\<close> when the
  record's home directory is \<open>/nonexistent\<close>, and the record's home directory
  otherwise.
\<close>

theorem get_pattoo_home_resolves:
  "get_pattoo_home w =
     Inr (case passwd_db w ''pattoo'' of
            None \<Rightarrow> ''/home/pattoo''
          | Some p \<Rightarrow> if pw_dir p = ''/nonexistent'' then ''/home/pattoo'' else pw_dir p)"
  by (rule get_pattoo_home_value)

subsection \<open>installation_checks\<close>

lemma installation_checks_value:
  "installation_checks w =
     (if getuser w = ''travis'' then []
      else (if getuser w \<noteq> ''root''
            then [Log ''You are currently not running the script as root.Run as root to continue'']
            else []) @
           (if startswith (getcwd w) ''/home''
            then [Log ''You cloned the repository in a home related directory, please clone in a non-home directory to continue'']
            else []) @
           (if virtualenv_importable w then []
            else [Write Stdout (Line ''virtualenv is not installed. Installing virtualenv''),
                  RunScript (''pip3 install virtualenv -t '' @ default_path w)]),
      Inr ())"
  by (simp add: installation_checks_def shared_log_def shared_run_script_def emit_def
      return_def)

text \<open>
  C10: when the invoking user is \<open>travis\<close>, \<open>installation_checks\<close> does nothing: no
  log message, no look at the working directory, no check or installation of
  \<open>virtualenv\<close>; it returns at once, whatever the directory and whether or not
  \<open>virtualenv\<close> is importable.
\<close>

theorem installation_checks_travis:
  "getuser w = ''travis'' \<Longrightarrow> installation_checks w = ([], Inr ())"
  by (simp add: installation_checks_def return_def)

theorem installation_checks_travis_witness:
  "getuser (example_world\<lparr>getuser := ''travis'', getcwd := ''/home/travis/build'',
      virtualenv_importable := False\<rparr>) = ''travis'' \<and>
   installation_checks (example_world\<lparr>getuser := ''travis'', getcwd := ''/home/travis/build'',
      virtualenv_importable := False\<rparr>) = ([], Inr ())"
  using installation_checks_travis
    [of "example_world\<lparr>getuser := ''travis'', getcwd := ''/home/travis/build'',
      virtualenv_importable := False\<rparr>"]
  by simp

subsection \<open>What the parser returns\<close>

lemma verbose_only_refl [simp]: "verbose_only ns ns"
  by (simp add: verbose_only_def)

lemma verbose_only_trans:
  "verbose_only a b \<Longrightarrow> verbose_only b c \<Longrightarrow> verbose_only a c"
  by (auto simp: verbose_only_def)

lemma verbose_only_upd: "verbose_only ns (ns(''verbose'' \<mapsto> PBool True))"
  by (simp add: verbose_only_def)

lemma take_actions_verbose_only:
  "take_actions p acts ns = Inr ns' \<Longrightarrow> verbose_only ns ns'"
proof (induction acts arbitrary: ns)
  case Nil
  then show ?case by simp
next
  case (Cons a acts)
  show ?case
  proof (cases a)
    case HelpAction
    with Cons.prems show ?thesis by simp
  next
    case StoreTrueVerbose
    with Cons.prems have "take_actions p acts (ns(''verbose'' \<mapsto> PBool True)) = Inr ns'"
      by simp
    then have "verbose_only (ns(''verbose'' \<mapsto> PBool True)) ns'" by (rule Cons.IH)
    with verbose_only_upd show ?thesis by (rule verbose_only_trans)
  qed
qed

lemma consume_verbose_only:
  "consume p toks ns extras = Inr (ns', extras', r) \<Longrightarrow> verbose_only ns ns'"
proof (induction p toks ns extras rule: consume.induct)
  case (3 p action os sep explicit_arg s rest ns extras)
  then show ?case
    by (auto split: sum.splits prod.splits dest: take_actions_verbose_only
        intro: verbose_only_trans)
qed (auto split: if_splits)

lemma parse_known_args_with_cases:
  assumes "parse_known_args_with sub p args = Inr (ns, ex)"
  obtains (own) "verbose_only (defaults p) ns"
  | (sub) dest m name q vals subns ex' ns0 where
      "subparsers p = Some (dest, m)" "map_of m name = Some q"
      "sub q vals = Inr (subns, ex')" "verbose_only (defaults p) ns0"
      "ns = (ns0(dest \<mapsto> PStr name)) ++ subns"
  using assms
  by (auto simp: parse_known_args_with_def
      split: sum.splits prod.splits option.splits dest: consume_verbose_only)

lemma defaults_simps:
  "defaults P_main = [''action'' \<mapsto> PNone]"
  "defaults P_install = [''qualifier'' \<mapsto> PNone]"
  "defaults P_all = [''verbose'' \<mapsto> PBool False]"
  "defaults P_pip = [''verbose'' \<mapsto> PBool False]"
  "defaults P_configuration = Map.empty"
  "defaults P_systemd = Map.empty"
  by (simp_all add: defaults_def)

lemma parse_args_verbose:
  assumes "parse_args args = Inr ns" and "ns ''qualifier'' = Some (PStr q)"
    and "q = ''all'' \<or> q = ''pip''"
  shows "\<exists>b. ns ''verbose'' = Some (PBool b)"
proof -
  from assms(1) obtain ex where top:
    "parse_known_args_with (parse_known_args_with (parse_known_args_with no_subparser))
       P_main args = Inr (ns, ex)"
    by (auto simp: parse_args_def parse_known_args_def split: sum.splits prod.splits if_splits)
  from top show ?thesis
  proof (cases rule: parse_known_args_with_cases)
    case own
    with assms(2) show ?thesis by (simp add: verbose_only_def defaults_simps)
  next
    case (sub dest m name p1 vals subns ex' ns0)
    then have p1: "p1 = P_install" and dest: "dest = ''action''"
      by (auto split: if_splits)
    from sub(4) have "ns0 ''qualifier'' = None"
      by (simp add: verbose_only_def defaults_simps)
    with sub(5) dest assms(2) have sq: "subns ''qualifier'' = Some (PStr q)"
      by (auto simp: map_add_def split: option.splits)
    from sub(5) have nv: "\<And>v. subns ''verbose'' = Some v \<Longrightarrow> ns ''verbose'' = Some v"
      by (simp add: map_add_def)
    from sub(3) p1 have mid:
      "parse_known_args_with (parse_known_args_with no_subparser) P_install vals
         = Inr (subns, ex')" by simp
    from mid show ?thesis
    proof (cases rule: parse_known_args_with_cases)
      case own
      with sq show ?thesis by (simp add: verbose_only_def defaults_simps)
    next
      case (sub dest2 m2 name2 p2 vals2 leafns ex2 ns1)
      then have m2: "m2 = Install_qualifiers" and dest2: "dest2 = ''qualifier''" by auto
      from sub(2) m2 have leaf: "subparsers p2 = None"
        and nm: "(name2 = ''all'' \<or> name2 = ''pip'') \<longrightarrow> (p2 = P_all \<or> p2 = P_pip)"
        by (auto simp: Install_qualifiers_def split: if_splits)
      from sub(3) have vo: "verbose_only (defaults p2) leafns"
        by (cases rule: parse_known_args_with_cases) (auto simp: leaf)
      from leaf have "defaults p2 ''qualifier'' = None"
        by (cases p2) (simp_all add: defaults_simps)
      with vo have "leafns ''qualifier'' = None" by (simp add: verbose_only_def)
      with sub(5) dest2 sq have "name2 = q" by (simp add: map_add_def)
      with nm assms(3) have "p2 = P_all \<or> p2 = P_pip" by simp
      then have "defaults p2 ''verbose'' = Some (PBool False)"
        by (auto simp: defaults_simps)
      with vo have "\<exists>b. leafns ''verbose'' = Some (PBool b)"
        by (auto simp: verbose_only_def)
      then obtain b where "leafns ''verbose'' = Some (PBool b)" ..
      with sub(5) have "subns ''verbose'' = Some (PBool b)" by (simp add: map_add_def)
      with nv show ?thesis by blast
    qed
  qed
qed

lemma parse_args_Nil: "parse_args [] = Inr [''action'' \<mapsto> PNone]"
  by (simp add: parse_args_def parse_known_args_def parse_known_args_with_def defaults_simps)

lemma parse_optional_positional:
  "q = [] \<or> hd q \<noteq> CHR ''-'' \<Longrightarrow> parse_optional p q = Inr None"
  by (auto simp: parse_optional_def)

lemma parse_args_invalid_qualifier:
  assumes "q = [] \<or> hd q \<noteq> CHR ''-''"
    and "q \<notin> {''all'', ''pip'', ''configuration'', ''systemd''}"
  shows "parse_args [''install'', q] =
     Inl (ErrorExit P_install (InvalidChoice ''qualifier'' q
       [''all'', ''configuration'', ''pip'', ''systemd'']))"
proof -
  from assms(1) have nd: "q \<noteq> ''--''" by auto
  have c1: "classify p [''install'', q] = Inr [(TokA, ''install''), (TokA, q)]" for p
    using assms(1) nd by (simp add: parse_optional_positional)
  have c2: "classify p [q] = Inr [(TokA, q)]" for p
    using assms(1) nd by (simp add: parse_optional_positional)
  have inner: "parse_known_args_with sub P_install [q] =
     Inl (ErrorExit P_install (InvalidChoice ''qualifier'' q
       [''all'', ''configuration'', ''pip'', ''systemd'']))" for sub
    using assms(2) by (simp add: parse_known_args_with_def c2 Install_qualifiers_def del: classify.simps)
  show ?thesis
    by (simp add: parse_args_def parse_known_args_def parse_known_args_with_def [of _ P_main]
        c1 inner del: classify.simps)
qed

lemma parse_args_install_all:
  "parse_args [''install'', ''all''] =
     Inr [''action'' \<mapsto> PStr ''install'', ''qualifier'' \<mapsto> PStr ''all'', ''verbose'' \<mapsto> PBool False]"
  by (simp add: parse_args_def parse_known_args_def parse_known_args_with_def 
     parse_optional_def defaults_simps Install_qualifiers_def no_subparser_def)

lemma parse_args_install_pip_verbose:
  "parse_args [''install'', ''pip'', ''--verbose''] =
     Inr [''action'' \<mapsto> PStr ''install'', ''qualifier'' \<mapsto> PStr ''pip'', ''verbose'' \<mapsto> PBool True]"
  by (simp add: parse_args_def parse_known_args_def parse_known_args_with_def 
     parse_optional_def defaults_simps Install_qualifiers_def no_subparser_def
     option_string_actions_def partition_eq_def get_option_tuples_def startswith_def
     negative_number_def is_digit_def)

lemma parse_args_install_pip:
  "parse_args [''install'', ''pip''] =
     Inr [''action'' \<mapsto> PStr ''install'', ''qualifier'' \<mapsto> PStr ''pip'', ''verbose'' \<mapsto> PBool False]"
  by (simp add: parse_args_def parse_known_args_def parse_known_args_with_def 
     parse_optional_def defaults_simps Install_qualifiers_def no_subparser_def)

lemma parse_args_install_configuration:
  "parse_args [''install'', ''configuration''] =
     Inr [''action'' \<mapsto> PStr ''install'', ''qualifier'' \<mapsto> PStr ''configuration'']"
  by (simp add: parse_args_def parse_known_args_def parse_known_args_with_def 
     parse_optional_def defaults_simps Install_qualifiers_def no_subparser_def)

subsection \<open>The sections of main, evaluated\<close>

lemma main_virtualenv_value:
  "main_virtualenv w =
     (if getuser w \<noteq> ''travis'' then
        (let pattoo_home = (case passwd_db w ''pattoo'' of
                              None \<Rightarrow> ''/home/pattoo''
                            | Some p \<Rightarrow> if pw_dir p = ''/nonexistent'' then ''/home/pattoo''
                                        else pw_dir p);
             venv_dir = os_path_join pattoo_home ''pattoo-venv''
         in ([Call (EnvironmentSetup venv_dir)],
             case environment_setup w venv_dir of
               Returns \<Rightarrow> Inr (pattoo_home, venv_dir,
                            os_path_join venv_dir ''bin/python3'' @ '' '' @ ROOT_DIR w)
             | Raises e \<Rightarrow> Inl e))
      else ([], Inr (os_path_join (expanduser_home w) ''pattoo'', default_path w, ROOT_DIR w)))"
  by (simp add: main_virtualenv_def get_pattoo_home_value Let_def invoke_def return_def
      split: outcome.splits)

lemma Parser_args_value:
  "Parser_args w =
     (if length (argv w) = 1 then ([Write Stderr (Help P_main)], Inl (SystemExit 1))
      else case parse_args (drop 1 (argv w)) of
        Inr args \<Rightarrow> ([], Inr (args, P_main))
      | Inl (HelpExit p) \<Rightarrow> ([Write Stdout (Help p)], Inl (SystemExit 0))
      | Inl (ErrorExit p message) \<Rightarrow>
          ([Write Stderr (ErrorBanner message), Write Stdout (Help p)], Inl (SystemExit 2)))"
  by (simp add: Parser_args_def Parser_error_def help_action_def raise_def return_def
      split: sum.splits parse_exit.splits)

lemma main_process_install:
  assumes "args ''action'' = Some (PStr ''install'')"
    and "args ''qualifier'' = Some (PStr q)"
    and "q \<in> {''all'', ''pip'', ''configuration'', ''systemd''}"
    and "q = ''all'' \<or> q = ''pip'' \<longrightarrow> args ''verbose'' = Some verbose"
  shows "main_process w h v i args parser =
     (Write Stdout (Line (banner q)) #
        map Call (steps_made (answered w (qualifier_calls w h v i verbose q))) @
        (case steps_result (answered w (qualifier_calls w h v i verbose q)) of
           Inr _ \<Rightarrow> [done_message] | Inl _ \<Rightarrow> []),
      steps_result (answered w (qualifier_calls w h v i verbose q)))"
  using assms
  by (auto simp: main_process_def getattr_def Let_def qualifier_calls_def banner_def
      answered_def invoke_def and_then_def emit_def lift_def
      split: outcome.splits)

lemma main_process_other_action:
  "args ''action'' = Some a \<Longrightarrow> a \<noteq> PStr ''install'' \<Longrightarrow>
   main_process w h v i args parser = ([], Inr ())"
  by (simp add: main_process_def getattr_def return_def)

lemma main_process_no_qualifier:
  assumes "args ''action'' = Some (PStr ''install'')"
    and "args ''qualifier'' = Some qv"
    and "qv \<notin> PStr ` {''all'', ''pip'', ''configuration'', ''systemd''}"
  shows "main_process w h v i args parser = ([Write Stderr (Help parser)], Inl (SystemExit 1))"
  using assms
  by (simp add: main_process_def getattr_def raise_def)

lemma main_process_no_attribute:
  "args ''action'' = None \<or> (args ''action'' = Some (PStr ''install'') \<and> args ''qualifier'' = None)
   \<Longrightarrow> main_process w h v i args parser = ([], Inl AttributeError)"
  by (auto simp: main_process_def getattr_def)

lemma snd_installation_checks [simp]: "snd (installation_checks w) = Inr ()"
  by (simp add: installation_checks_value)

lemma main_startup:
  "main w =
     (case snd (main_virtualenv w) of
        Inl e \<Rightarrow> (fst (installation_checks w) @ fst (main_virtualenv w), Inl e)
      | Inr (h, v, i) \<Rightarrow>
          (fst (installation_checks w) @ fst (main_virtualenv w) @
             fst (and_then (Parser_args w) (\<lambda>(args, parser). main_process w h v i args parser)),
           snd (and_then (Parser_args w) (\<lambda>(args, parser). main_process w h v i args parser))))"
proof -
  obtain t where t: "installation_checks w = (t, Inr ())"
    using snd_installation_checks [of w] by (cases "installation_checks w") auto
  show ?thesis
    by (cases "main_virtualenv w") (auto simp: main_sections t split: sum.splits)
qed

lemma main_parsed:
  assumes "snd (main_virtualenv w) = Inr (h, v, i)"
    and "length (argv w) \<noteq> 1" and "parse_args (drop 1 (argv w)) = Inr args"
  shows "main w =
     (fst (installation_checks w) @ fst (main_virtualenv w) @
        fst (main_process w h v i args P_main),
      snd (main_process w h v i args P_main))"
  using assms by (simp add: main_startup Parser_args_value)

lemma main_not_parsed:
  assumes "snd (main_virtualenv w) = Inr (h, v, i)"
    and "length (argv w) = 1 \<or> parse_args (drop 1 (argv w)) = Inl x"
  shows "\<exists>e. snd (Parser_args w) = Inl e \<and> main w =
     (fst (installation_checks w) @ fst (main_virtualenv w) @ fst (Parser_args w), Inl e)"
  using assms by (auto simp: main_startup Parser_args_value split: parse_exit.splits)

lemma startup_events:
  assumes "e \<in> set (fst (installation_checks w) @ fst (main_virtualenv w))"
  shows "\<not> is_install_call e" and "e \<noteq> done_message"
  using assms
  by (auto simp: installation_checks_value main_virtualenv_value Let_def split: if_splits)

lemma startup_calls_returned:
  assumes "Call c \<in> set (fst (installation_checks w) @ fst (main_virtualenv w))"
    and "snd (main_virtualenv w) = Inr x"
  shows "outcome_of w c = Returns"
  using assms
  by (auto simp: installation_checks_value main_virtualenv_value Let_def
      split: if_splits outcome.splits)

lemma Parser_args_events:
  assumes "e \<in> set (fst (Parser_args w))"
  shows "\<not> is_install_call e" and "e \<noteq> done_message" and "\<forall>c. e \<noteq> Call c"
  using assms
  by (auto simp: Parser_args_value split: if_splits sum.splits parse_exit.splits)

lemma steps_made_returned:
  "steps_result steps = Inr () \<Longrightarrow> (c, out) \<in> set steps \<Longrightarrow> out = Returns"
  by (induction steps rule: steps_result.induct) auto

lemma steps_made_all:
  "steps_result steps = Inr () \<Longrightarrow> steps_made steps = map fst steps"
  by (induction steps rule: steps_result.induct) auto

lemma install_kinds_append [simp]:
  "install_kinds (xs @ ys) = install_kinds xs @ install_kinds ys"
  by (induction xs rule: install_kinds.induct) auto

lemma install_kinds_none:
  "list_all (\<lambda>e. \<not> is_install_call e) es \<Longrightarrow> install_kinds es = []"
  by (induction es rule: install_kinds.induct) auto

lemma startup_no_install:
  "list_all (\<lambda>e. \<not> is_install_call e) (fst (installation_checks w) @ fst (main_virtualenv w))"
  unfolding list_all_iff using startup_events(1) by blast

lemma parsed_not_single:
  assumes "parse_args (drop 1 (argv w)) = Inr args"
    and "args ''action'' = Some (PStr ''install'')"
  shows "length (argv w) \<noteq> 1"
proof
  assume "length (argv w) = 1"
  then have "drop 1 (argv w) = []" by simp
  with assms show False by (auto simp: parse_args_Nil)
qed

lemma main_install:
  assumes "snd (main_virtualenv w) = Inr (h, v, i)"
    and "parse_args (drop 1 (argv w)) = Inr args"
    and "args ''action'' = Some (PStr ''install'')"
    and "args ''qualifier'' = Some (PStr q)"
    and "q \<in> {''all'', ''pip'', ''configuration'', ''systemd''}"
  shows "\<exists>verbose. (q = ''all'' \<or> q = ''pip'' \<longrightarrow> args ''verbose'' = Some verbose) \<and>
     main w =
       (fst (installation_checks w) @ fst (main_virtualenv w) @
          Write Stdout (Line (banner q)) #
          map Call (steps_made (answered w (qualifier_calls w h v i verbose q))) @
          (case steps_result (answered w (qualifier_calls w h v i verbose q)) of
             Inr _ \<Rightarrow> [done_message] | Inl _ \<Rightarrow> []),
        steps_result (answered w (qualifier_calls w h v i verbose q)))"
proof -
  obtain verbose where vb: "q = ''all'' \<or> q = ''pip'' \<longrightarrow> args ''verbose'' = Some verbose"
    using parse_args_verbose [OF assms(2) assms(4)] by blast
  have len: "length (argv w) \<noteq> 1" using assms(2,3) by (rule parsed_not_single)
  show ?thesis
    using vb main_parsed [OF assms(1) len assms(2)]
      main_process_install [OF assms(3) assms(4) assms(5) vb, of w h v i P_main]
    by auto
qed

subsection \<open>install all\<close>

text \<open>
  C1: in every run parsed as \<open>install all\<close> (one that reaches the parser, which is when
  the virtual environment section has returned), what \<open>main\<close> does after the parser is
  the line \<open>Installing everything\<close>, then the calls of \<open>configure.install\<close>,
  \<open>packages.install\<close> and \<open>systemd.install\<close>, in this order and with nothing between
  them, each made when the one before it has returned; no installation collaborator is
  called before. When the three return, \<open>Done\<close> follows and \<open>main\<close> returns.
\<close>

theorem install_all_call_order:
  assumes "snd (main_virtualenv w) = Inr (pattoo_home, venv_dir, installation_dir)"
    and "parse_args (drop 1 (argv w)) = Inr args"
    and "args ''action'' = Some (PStr ''install'')"
    and "args ''qualifier'' = Some (PStr ''all'')"
  shows "\<exists>verbose. args ''verbose'' = Some verbose \<and>
     list_all (\<lambda>e. \<not> is_install_call e)
       (fst (installation_checks w) @ fst (main_virtualenv w)) \<and>
     fst (main w) =
       fst (installation_checks w) @ fst (main_virtualenv w) @
       Write Stdout (Line ''Installing everything'') #
       map Call (steps_made (answered w
         [ConfigureInstall daemon_list pattoo_home,
          PackagesInstall (ROOT_DIR w) venv_dir verbose,
          SystemdInstall daemon_list (os_path_join (ROOT_DIR w) ''setup/systemd/system'')
            installation_dir])) @
       (if snd (main w) = Inr () then [done_message] else []) \<and>
     (configure_install w daemon_list pattoo_home = Returns \<and>
      packages_install w (ROOT_DIR w) venv_dir verbose = Returns \<and>
      systemd_install w daemon_list (os_path_join (ROOT_DIR w) ''setup/systemd/system'')
        installation_dir = Returns \<longrightarrow>
      main w =
        (fst (installation_checks w) @ fst (main_virtualenv w) @
         [Write Stdout (Line ''Installing everything''),
          Call (ConfigureInstall daemon_list pattoo_home),
          Call (PackagesInstall (ROOT_DIR w) venv_dir verbose),
          Call (SystemdInstall daemon_list
            (os_path_join (ROOT_DIR w) ''setup/systemd/system'') installation_dir),
          done_message], Inr ()))"
proof -
  from main_install [OF assms, simplified] obtain verbose where
    v: "args ''verbose'' = Some verbose" and
    m: "main w =
       (fst (installation_checks w) @ fst (main_virtualenv w) @
          Write Stdout (Line (banner ''all'')) #
          map Call (steps_made (answered w
            (qualifier_calls w pattoo_home venv_dir installation_dir verbose ''all''))) @
          (case steps_result (answered w
             (qualifier_calls w pattoo_home venv_dir installation_dir verbose ''all'')) of
             Inr _ \<Rightarrow> [done_message] | Inl _ \<Rightarrow> []),
        steps_result (answered w
          (qualifier_calls w pattoo_home venv_dir installation_dir verbose ''all'')))"
    by blast
  have "fst (main w) = fst (installation_checks w) @ fst (main_virtualenv w) @
       Write Stdout (Line ''Installing everything'') #
       map Call (steps_made (answered w
         [ConfigureInstall daemon_list pattoo_home,
          PackagesInstall (ROOT_DIR w) venv_dir verbose,
          SystemdInstall daemon_list (os_path_join (ROOT_DIR w) ''setup/systemd/system'')
            installation_dir])) @
       (if snd (main w) = Inr () then [done_message] else [])"
    unfolding m by (simp add: qualifier_calls_def banner_def split: sum.splits)
  moreover have "configure_install w daemon_list pattoo_home = Returns \<and>
      packages_install w (ROOT_DIR w) venv_dir verbose = Returns \<and>
      systemd_install w daemon_list (os_path_join (ROOT_DIR w) ''setup/systemd/system'')
        installation_dir = Returns \<longrightarrow>
      main w =
        (fst (installation_checks w) @ fst (main_virtualenv w) @
         [Write Stdout (Line ''Installing everything''),
          Call (ConfigureInstall daemon_list pattoo_home),
          Call (PackagesInstall (ROOT_DIR w) venv_dir verbose),
          Call (SystemdInstall daemon_list
            (os_path_join (ROOT_DIR w) ''setup/systemd/system'') installation_dir),
          done_message], Inr ())"
    unfolding m by (simp add: qualifier_calls_def banner_def answered_def)
  ultimately show ?thesis using v startup_no_install [of w] by blast
qed

lemma run_with_simps:
  "drop 1 (argv (run_with args)) = args"
  "length (argv (run_with args)) = Suc (length args)"
  "fst (installation_checks (run_with args)) = []"
  "main_virtualenv (run_with args) =
     ([Call (EnvironmentSetup ''/home/pattoo/pattoo-venv'')],
      Inr (''/home/pattoo'', ''/home/pattoo/pattoo-venv'',
           ''/home/pattoo/pattoo-venv/bin/python3 /opt/pattoo-agent-linux''))"
  "ROOT_DIR (run_with args) = ''/opt/pattoo-agent-linux''"
  "configure_install (run_with args) ds h = Returns"
  "packages_install (run_with args) r d v = Returns"
  "systemd_install (run_with args) ds t i = Returns"
  by (simp_all add: run_with_def example_world_def installation_checks_value
      main_virtualenv_value os_path_join_def startswith_def Let_def)

text \<open>C1, at \<open>install all\<close> in the example world, where every collaborator returns.\<close>

theorem install_all_call_order_witness:
  "snd (main_virtualenv (run_with [''install'', ''all''])) =
     Inr (''/home/pattoo'', ''/home/pattoo/pattoo-venv'',
          ''/home/pattoo/pattoo-venv/bin/python3 /opt/pattoo-agent-linux'') \<and>
   parse_args (drop 1 (argv (run_with [''install'', ''all'']))) =
     Inr [''action'' \<mapsto> PStr ''install'', ''qualifier'' \<mapsto> PStr ''all'',
          ''verbose'' \<mapsto> PBool False] \<and>
   main (run_with [''install'', ''all'']) =
     ([Call (EnvironmentSetup ''/home/pattoo/pattoo-venv''),
       Write Stdout (Line ''Installing everything''),
       Call (ConfigureInstall daemon_list ''/home/pattoo''),
       Call (PackagesInstall ''/opt/pattoo-agent-linux'' ''/home/pattoo/pattoo-venv''
         (PBool False)),
       Call (SystemdInstall daemon_list ''/opt/pattoo-agent-linux/setup/systemd/system''
         ''/home/pattoo/pattoo-venv/bin/python3 /opt/pattoo-agent-linux''),
       done_message], Inr ())"
proof -
  let ?w = "run_with [''install'', ''all'']"
  let ?args = "[''action'' \<mapsto> PStr ''install'', ''qualifier'' \<mapsto> PStr ''all'',
          ''verbose'' \<mapsto> PBool False]"
  have h1: "snd (main_virtualenv ?w) =
     Inr (''/home/pattoo'', ''/home/pattoo/pattoo-venv'',
          ''/home/pattoo/pattoo-venv/bin/python3 /opt/pattoo-agent-linux'')"
    by (simp add: run_with_simps)
  have h2: "parse_args (drop 1 (argv ?w)) = Inr ?args"
    by (simp only: run_with_simps(1) parse_args_install_all)
  have h3: "?args ''action'' = Some (PStr ''install'')" by simp
  have h4: "?args ''qualifier'' = Some (PStr ''all'')" by simp
  from install_all_call_order [OF h1 h2 h3 h4] obtain verbose where
    v: "?args ''verbose'' = Some verbose" and
    m: "configure_install ?w daemon_list ''/home/pattoo'' = Returns \<and>
      packages_install ?w (ROOT_DIR ?w) ''/home/pattoo/pattoo-venv'' verbose = Returns \<and>
      systemd_install ?w daemon_list (os_path_join (ROOT_DIR ?w) ''setup/systemd/system'')
        ''/home/pattoo/pattoo-venv/bin/python3 /opt/pattoo-agent-linux'' = Returns \<longrightarrow>
      main ?w =
        (fst (installation_checks ?w) @ fst (main_virtualenv ?w) @
         [Write Stdout (Line ''Installing everything''),
          Call (ConfigureInstall daemon_list ''/home/pattoo''),
          Call (PackagesInstall (ROOT_DIR ?w) ''/home/pattoo/pattoo-venv'' verbose),
          Call (SystemdInstall daemon_list
            (os_path_join (ROOT_DIR ?w) ''setup/systemd/system'')
            ''/home/pattoo/pattoo-venv/bin/python3 /opt/pattoo-agent-linux''),
          done_message], Inr ())"
    by blast
  from v have "verbose = PBool False" by simp
  with m have "main ?w =
     ([Call (EnvironmentSetup ''/home/pattoo/pattoo-venv''),
       Write Stdout (Line ''Installing everything''),
       Call (ConfigureInstall daemon_list ''/home/pattoo''),
       Call (PackagesInstall ''/opt/pattoo-agent-linux'' ''/home/pattoo/pattoo-venv''
         (PBool False)),
       Call (SystemdInstall daemon_list ''/opt/pattoo-agent-linux/setup/systemd/system''
         ''/home/pattoo/pattoo-venv/bin/python3 /opt/pattoo-agent-linux''),
       done_message], Inr ())"
    by (simp add: run_with_simps os_path_join_def startswith_def)
  with h1 h2 show ?thesis by blast
qed

subsection \<open>The message Done\<close>

lemma banner_not_done: "Line (banner q) \<noteq> Line ''Done''"
  by (simp add: banner_def)

lemma install_kinds_qualifier_calls:
  "q \<in> {''all'', ''pip'', ''configuration'', ''systemd''} \<Longrightarrow>
   install_kinds (map Call (qualifier_calls w h v i verbose q)) = qualifier_steps q"
  by (auto simp: qualifier_calls_def qualifier_steps_def)

lemma answered_fst [simp]: "map fst (answered w cs) = cs"
  by (simp add: answered_def comp_def)

lemma answered_mem: "(c, out) \<in> set (answered w cs) \<Longrightarrow> out = outcome_of w c"
  by (auto simp: answered_def)

lemma main_done_cases:
  assumes "done_message \<in> set (fst (main w))"
  obtains h v i args q verbose where
    "snd (main_virtualenv w) = Inr (h, v, i)"
    "parse_args (drop 1 (argv w)) = Inr args"
    "args ''action'' = Some (PStr ''install'')"
    "args ''qualifier'' = Some (PStr q)"
    "q \<in> {''all'', ''pip'', ''configuration'', ''systemd''}"
    "steps_result (answered w (qualifier_calls w h v i verbose q)) = Inr ()"
    "main w =
       ((fst (installation_checks w) @ fst (main_virtualenv w) @
          Write Stdout (Line (banner q)) #
          map Call (qualifier_calls w h v i verbose q)) @ [done_message], Inr ())"
proof (cases "snd (main_virtualenv w)")
  case (Inl e)
  then have "main w = (fst (installation_checks w) @ fst (main_virtualenv w), Inl e)"
    by (simp add: main_startup)
  with assms startup_events(2) [of done_message w] show ?thesis by simp
next
  case (Inr x)
  obtain h v i where x: "x = (h, v, i)" by (cases x)
  note venv = Inr [unfolded x]
  show ?thesis
  proof (cases "length (argv w) = 1 \<or> (\<exists>y. parse_args (drop 1 (argv w)) = Inl y)")
    case True
    then obtain y where "length (argv w) = 1 \<or> parse_args (drop 1 (argv w)) = Inl y"
      by blast
    from main_not_parsed [OF venv this] assms
    have "done_message \<in> set (fst (installation_checks w) @ fst (main_virtualenv w)) \<or>
          done_message \<in> set (fst (Parser_args w))" by auto
    with startup_events(2) [of done_message w] Parser_args_events(2) [of done_message w]
    show ?thesis by blast
  next
    case False
    then have len: "length (argv w) \<noteq> 1"
      and "\<exists>args. parse_args (drop 1 (argv w)) = Inr args"
      by (auto intro: sum.exhaust [of "parse_args (drop 1 (argv w))"])
    then obtain args where parsed: "parse_args (drop 1 (argv w)) = Inr args" by blast
    note m = main_parsed [OF venv len parsed]
    from assms m startup_events(2) [of done_message w]
    have inproc: "done_message \<in> set (fst (main_process w h v i args P_main))" by auto
    have act: "args ''action'' = Some (PStr ''install'')"
    proof (rule ccontr)
      assume "args ''action'' \<noteq> Some (PStr ''install'')"
      then have "args ''action'' = None \<or> (\<exists>a. args ''action'' = Some a \<and> a \<noteq> PStr ''install'')"
        by (cases "args ''action''") auto
      then have "fst (main_process w h v i args P_main) = []"
        using main_process_no_attribute [of args w h v i P_main]
          main_process_other_action [of args _ w h v i P_main] by auto
      with inproc show False by simp
    qed
    have "\<exists>q. args ''qualifier'' = Some (PStr q) \<and>
              q \<in> {''all'', ''pip'', ''configuration'', ''systemd''}"
    proof (rule ccontr)
      assume neg: "\<not> ?thesis"
      show False
      proof (cases "args ''qualifier''")
        case None
        with act main_process_no_attribute [of args w h v i P_main] inproc
        show False by simp
      next
        case (Some qv)
        with neg have "qv \<notin> PStr ` {''all'', ''pip'', ''configuration'', ''systemd''}"
          by auto
        from main_process_no_qualifier [OF act Some this, of w h v i P_main] inproc
        show False by simp
      qed
    qed
    then obtain q where q: "args ''qualifier'' = Some (PStr q)"
      and qin: "q \<in> {''all'', ''pip'', ''configuration'', ''systemd''}" by blast
    from main_install [OF venv parsed act q qin] obtain verbose where
      mw: "main w =
       (fst (installation_checks w) @ fst (main_virtualenv w) @
          Write Stdout (Line (banner q)) #
          map Call (steps_made (answered w (qualifier_calls w h v i verbose q))) @
          (case steps_result (answered w (qualifier_calls w h v i verbose q)) of
             Inr _ \<Rightarrow> [done_message] | Inl _ \<Rightarrow> []),
        steps_result (answered w (qualifier_calls w h v i verbose q)))"
      by blast
    have res: "steps_result (answered w (qualifier_calls w h v i verbose q)) = Inr ()"
    proof (cases "steps_result (answered w (qualifier_calls w h v i verbose q))")
      case (Inl e)
      with assms mw startup_events(2) [of done_message w] banner_not_done [of q]
      show ?thesis by auto
    next
      case (Inr u)
      then show ?thesis by simp
    qed
    from mw res have "main w =
       ((fst (installation_checks w) @ fst (main_virtualenv w) @
          Write Stdout (Line (banner q)) #
          map Call (qualifier_calls w h v i verbose q)) @ [done_message], Inr ())"
      by (simp add: steps_made_all)
    with venv parsed act q qin res show ?thesis by (rule that)
  qed
qed

text \<open>
  C7: in every run, if the line \<open>Done\<close> is printed at all, then it is the last thing
  the run does and is printed once; the command line was parsed with action \<open>install\<close>
  and one of the four qualifiers; the installation steps of that qualifier have all
  been called before it, every call made in the run has returned, and \<open>main\<close> returns
  normally. So \<open>Done\<close> is never printed before a step, nor when a step raises, nor
  without a valid qualifier.
\<close>

theorem done_only_after_steps:
  assumes "done_message \<in> set (fst (main w))"
  shows "snd (main w) = Inr () \<and>
     (\<forall>c. Call c \<in> set (fst (main w)) \<longrightarrow> outcome_of w c = Returns) \<and>
     (\<exists>pre args q.
        fst (main w) = pre @ [done_message] \<and> done_message \<notin> set pre \<and>
        parse_args (drop 1 (argv w)) = Inr args \<and>
        args ''action'' = Some (PStr ''install'') \<and>
        args ''qualifier'' = Some (PStr q) \<and>
        q \<in> {''all'', ''pip'', ''configuration'', ''systemd''} \<and>
        install_kinds pre = qualifier_steps q)"
  using assms
proof (cases rule: main_done_cases)
  case (1 h v i args q verbose)
  let ?start = "fst (installation_checks w) @ fst (main_virtualenv w)"
  let ?calls = "qualifier_calls w h v i verbose q"
  let ?pre = "?start @ Write Stdout (Line (banner q)) # map Call ?calls"
  have tr: "fst (main w) = ?pre @ [done_message]" and r: "snd (main w) = Inr ()"
    using 1(7) by simp_all
  have nd: "done_message \<notin> set ?pre"
    using startup_events(2) [of done_message w] banner_not_done [of q] by auto
  have kinds: "install_kinds ?pre = qualifier_steps q"
    using install_kinds_none [OF startup_no_install [of w]]
      install_kinds_qualifier_calls [OF 1(5), of w h v i verbose]
    by simp
  have ret: "outcome_of w c = Returns" if "Call c \<in> set (fst (main w))" for c
  proof -
    from that tr have "Call c \<in> set ?start \<or> c \<in> set ?calls" by auto
    then show ?thesis
    proof
      assume "Call c \<in> set ?start"
      then show ?thesis using 1(1) by (rule startup_calls_returned)
    next
      assume "c \<in> set ?calls"
      then have "(c, outcome_of w c) \<in> set (answered w ?calls)"
        by (auto simp: answered_def)
      with 1(6) show ?thesis by (rule steps_made_returned)
    qed
  qed
  from tr nd 1(2,3,4,5) kinds r ret show ?thesis by blast
qed

text \<open>C7, at \<open>install systemd\<close> in the example world.\<close>

theorem done_only_after_steps_witness:
  "done_message \<in> set (fst (main (run_with [''install'', ''systemd'']))) \<and>
   snd (main (run_with [''install'', ''systemd''])) = Inr () \<and>
   outcome_of (run_with [''install'', ''systemd''])
     (EnvironmentSetup ''/home/pattoo/pattoo-venv'') = Returns"
proof -
  have h: "done_message \<in> set (fst (main (run_with [''install'', ''systemd''])))"
    by code_simp
  have c: "Call (EnvironmentSetup ''/home/pattoo/pattoo-venv'')
      \<in> set (fst (main (run_with [''install'', ''systemd''])))"
    by code_simp
  from done_only_after_steps [OF h] h c show ?thesis by blast
qed

subsection \<open>Unknown qualifiers and the errors of the parser\<close>

text \<open>
  C2, as stated, fails: \<open>install foo\<close> ends with exit status 2, not 1, since
  \<open>argparse\<close> rejects the qualifier and \<open>_Parser.error\<close> calls \<open>sys.exit(2)\<close>; and
  \<open>install -h\<close>, whose second word is read as an option, prints the help and ends
  with status 0.
\<close>

theorem unknown_qualifier_exit_status:
  "''foo'' \<notin> {''all'', ''pip'', ''configuration'', ''systemd''} \<and>
   exit_status (snd (main (run_with [''install'', ''foo'']))) = 2 \<and>
   exit_status (snd (main (run_with [''install'', ''foo'']))) \<noteq> 1 \<and>
   ''-h'' \<notin> {''all'', ''pip'', ''configuration'', ''systemd''} \<and>
   exit_status (snd (main (run_with [''install'', ''-h'']))) = 0"
  by code_simp

text \<open>
  C2, amended: for every qualifier string that is none of \<open>all\<close>, \<open>pip\<close>,
  \<open>configuration\<close>, \<open>systemd\<close> and that \<open>argparse\<close> reads as an argument (it is
  empty or does not start with \<open>-\<close>), a run of \<open>install <qualifier>\<close> that reaches
  the parser writes the error banner of the \<open>install\<close> parser to standard error,
  prints its usage and ends with exit status 2; no installation collaborator is called.
\<close>

theorem unknown_qualifier_rejected:
  assumes "drop 1 (argv w) = [''install'', q]"
    and "q \<notin> {''all'', ''pip'', ''configuration'', ''systemd''}"
    and "q = [] \<or> hd q \<noteq> CHR ''-''"
    and "snd (main_virtualenv w) = Inr x"
  shows "(\<exists>s. main w =
       (fst (installation_checks w) @ fst (main_virtualenv w) @
        [Write Stderr (ErrorBanner (InvalidChoice ''qualifier'' q
           [''all'', ''configuration'', ''pip'', ''systemd''])),
         Write s (Help P_install)], Inl (SystemExit 2))) \<and>
     exit_status (snd (main w)) = 2 \<and>
     list_all (\<lambda>e. \<not> is_install_call e) (fst (main w))"
proof -
  obtain h v i where x: "x = (h, v, i)" by (cases x)
  from assms(1) have len: "length (argv w) \<noteq> 1" by auto
  have p: "parse_args (drop 1 (argv w)) =
     Inl (ErrorExit P_install (InvalidChoice ''qualifier'' q
       [''all'', ''configuration'', ''pip'', ''systemd'']))"
    unfolding assms(1) using assms(3) assms(2) by (rule parse_args_invalid_qualifier)
  have m: "main w =
       (fst (installation_checks w) @ fst (main_virtualenv w) @
        [Write Stderr (ErrorBanner (InvalidChoice ''qualifier'' q
           [''all'', ''configuration'', ''pip'', ''systemd''])),
         Write Stdout (Help P_install)], Inl (SystemExit 2))"
    using assms(4) len p by (simp add: main_startup Parser_args_value x)
  moreover have "list_all (\<lambda>e. \<not> is_install_call e) (fst (main w))"
    using startup_no_install [of w] by (simp add: m)
  ultimately show ?thesis by auto
qed

text \<open>C2, amended, at \<open>install everything\<close> in the example world.\<close>

theorem unknown_qualifier_rejected_witness:
  "drop 1 (argv (run_with [''install'', ''everything''])) = [''install'', ''everything''] \<and>
   ''everything'' \<notin> {''all'', ''pip'', ''configuration'', ''systemd''} \<and>
   (''everything'' = [] \<or> hd ''everything'' \<noteq> CHR ''-'') \<and>
   snd (main_virtualenv (run_with [''install'', ''everything''])) =
     Inr (''/home/pattoo'', ''/home/pattoo/pattoo-venv'',
          ''/home/pattoo/pattoo-venv/bin/python3 /opt/pattoo-agent-linux'') \<and>
   exit_status (snd (main (run_with [''install'', ''everything'']))) = 2"
proof -
  have h1: "drop 1 (argv (run_with [''install'', ''everything''])) =
    [''install'', ''everything'']" by (simp only: run_with_simps(1))
  have h2: "''everything'' \<notin> {''all'', ''pip'', ''configuration'', ''systemd''}" by simp
  have h3: "''everything'' = [] \<or> hd ''everything'' \<noteq> CHR ''-''" by simp
  have h4: "snd (main_virtualenv (run_with [''install'', ''everything''])) =
     Inr (''/home/pattoo'', ''/home/pattoo/pattoo-venv'',
          ''/home/pattoo/pattoo-venv/bin/python3 /opt/pattoo-agent-linux'')"
    by (simp add: run_with_simps)
  from unknown_qualifier_rejected [OF h1 h2 h3 h4] h1 h2 h3 h4 show ?thesis by blast
qed

text \<open>
  C8, at \<open>install foo\<close>: the parser writes the error banner to standard error, but
  the help text to standard output, before it exits with status 2.
\<close>

theorem parser_error_help_on_stdout:
  "fst (Parser_args (run_with [''install'', ''foo''])) =
     [Write Stderr (ErrorBanner (InvalidChoice ''qualifier'' ''foo''
        [''all'', ''configuration'', ''pip'', ''systemd''])),
      Write Stdout (Help P_install)] \<and>
   filter to_stdout (fst (Parser_args (run_with [''install'', ''foo'']))) =
     [Write Stdout (Help P_install)] \<and>
   exit_status (snd (Parser_args (run_with [''install'', ''foo'']))) = 2"
  by code_simp

subsection \<open>No arguments\<close>

text \<open>
  C5: when the argument vector has length one, \<open>Parser.args\<close> writes the usage of the
  main parser to standard error and exits with status 1, and no call of an installation
  collaborator is made in the run; a run that reaches the parser ends so, with exit
  status 1.
\<close>

theorem no_arguments_usage:
  assumes "length (argv w) = 1"
  shows "Parser_args w = ([Write Stderr (Help P_main)], Inl (SystemExit 1)) \<and>
     list_all (\<lambda>e. \<not> is_install_call e) (fst (main w)) \<and>
     (\<forall>x. snd (main_virtualenv w) = Inr x \<longrightarrow>
        main w = (fst (installation_checks w) @ fst (main_virtualenv w) @
                  [Write Stderr (Help P_main)], Inl (SystemExit 1)) \<and>
        exit_status (snd (main w)) = 1)"
proof -
  have p: "Parser_args w = ([Write Stderr (Help P_main)], Inl (SystemExit 1))"
    using assms by (simp add: Parser_args_value)
  have m: "main w = (fst (installation_checks w) @ fst (main_virtualenv w) @
                  [Write Stderr (Help P_main)], Inl (SystemExit 1))"
    if "snd (main_virtualenv w) = Inr x" for x
    using that p by (cases x) (simp add: main_startup)
  have "list_all (\<lambda>e. \<not> is_install_call e) (fst (main w))"
  proof (cases "snd (main_virtualenv w)")
    case (Inl e)
    then show ?thesis using startup_no_install [of w] by (simp add: main_startup)
  next
    case (Inr x)
    from m [OF this] show ?thesis using startup_no_install [of w] by simp
  qed
  with p m show ?thesis by auto
qed

text \<open>C5, at the example world run without arguments.\<close>

theorem no_arguments_usage_witness:
  "length (argv (run_with [])) = 1 \<and>
   snd (main_virtualenv (run_with [])) =
     Inr (''/home/pattoo'', ''/home/pattoo/pattoo-venv'',
          ''/home/pattoo/pattoo-venv/bin/python3 /opt/pattoo-agent-linux'') \<and>
   Parser_args (run_with []) = ([Write Stderr (Help P_main)], Inl (SystemExit 1)) \<and>
   exit_status (snd (main (run_with []))) = 1"
proof -
  have h1: "length (argv (run_with [])) = 1" by (simp add: run_with_simps)
  have h2: "snd (main_virtualenv (run_with [])) =
     Inr (''/home/pattoo'', ''/home/pattoo/pattoo-venv'',
          ''/home/pattoo/pattoo-venv/bin/python3 /opt/pattoo-agent-linux'')"
    by (simp add: run_with_simps)
  from no_arguments_usage [OF h1] h1 h2 show ?thesis by blast
qed

subsection \<open>install configuration\<close>

text \<open>
  C3, as stated, fails for the user \<open>travis\<close>: with no \<open>pattoo\<close> entry in the user
  database and the arguments \<open>install configuration\<close>, \<open>configure.install\<close> is called
  with the home directory \<open>~/pattoo\<close> of the invoking user, here
  \<open>/home/travis/pattoo\<close>, and not with \<open>/home/pattoo\<close>.
\<close>

theorem configuration_scenario_travis:
  "passwd_db travis_world ''pattoo'' = None \<and>
   drop 1 (argv travis_world) = [''install'', ''configuration''] \<and>
   main travis_world =
     ([Write Stdout (Line ''Installing configuration''),
       Call (ConfigureInstall daemon_list ''/home/travis/pattoo''),
       done_message], Inr ()) \<and>
   Call (ConfigureInstall daemon_list ''/home/pattoo'') \<notin> set (fst (main travis_world))"
  by code_simp

text \<open>
  C3, amended: given a user database with no \<open>pattoo\<close> entry, the arguments
  \<open>install configuration\<close> and an invoking user other than \<open>travis\<close>, where the
  environment setup and the configuration collaborator return: after the installation
  checks the run sets up the virtual environment \<open>/home/pattoo/pattoo-venv\<close>, prints
  \<open>Installing configuration\<close>, calls \<open>configure.install\<close> once, with the three
  daemons and \<open>/home/pattoo\<close>, then prints \<open>Done\<close> and returns.
\<close>

theorem install_configuration_scenario:
  assumes "passwd_db w ''pattoo'' = None"
    and "drop 1 (argv w) = [''install'', ''configuration'']"
    and "getuser w \<noteq> ''travis''"
    and "environment_setup w ''/home/pattoo/pattoo-venv'' = Returns"
    and "configure_install w daemon_list ''/home/pattoo'' = Returns"
  shows "main w =
     (fst (installation_checks w) @
      [Call (EnvironmentSetup ''/home/pattoo/pattoo-venv''),
       Write Stdout (Line ''Installing configuration''),
       Call (ConfigureInstall
         [''pattoo_agent_linux_autonomousd'', ''pattoo_agent_linux_spoked'',
          ''pattoo_agent_linux_hubd''] ''/home/pattoo''),
       done_message], Inr ()) \<and>
     list_all (\<lambda>e. \<not> is_install_call e) (fst (installation_checks w))"
proof -
  have venv: "main_virtualenv w =
     ([Call (EnvironmentSetup ''/home/pattoo/pattoo-venv'')],
      Inr (''/home/pattoo'', ''/home/pattoo/pattoo-venv'',
           ''/home/pattoo/pattoo-venv/bin/python3 '' @ ROOT_DIR w))"
    using assms(1,3,4)
    by (simp add: main_virtualenv_value os_path_join_def startswith_def Let_def)
  then have s: "snd (main_virtualenv w) =
      Inr (''/home/pattoo'', ''/home/pattoo/pattoo-venv'',
           ''/home/pattoo/pattoo-venv/bin/python3 '' @ ROOT_DIR w)" by simp
  have p: "parse_args (drop 1 (argv w)) =
     Inr [''action'' \<mapsto> PStr ''install'', ''qualifier'' \<mapsto> PStr ''configuration'']"
    unfolding assms(2) by (rule parse_args_install_configuration)
  from main_install [OF s p, of "''configuration''"] assms(5)
  have "main w =
     (fst (installation_checks w) @
      [Call (EnvironmentSetup ''/home/pattoo/pattoo-venv''),
       Write Stdout (Line ''Installing configuration''),
       Call (ConfigureInstall daemon_list ''/home/pattoo''),
       done_message], Inr ())"
    by (auto simp: venv qualifier_calls_def banner_def answered_def)
  moreover have "list_all (\<lambda>e. \<not> is_install_call e) (fst (installation_checks w))"
    using startup_no_install [of w] by simp
  ultimately show ?thesis by (simp add: daemon_list_def)
qed

text \<open>C3, amended, at the example world, where the user is \<open>root\<close>.\<close>

theorem install_configuration_scenario_witness:
  "passwd_db (run_with [''install'', ''configuration'']) ''pattoo'' = None \<and>
   drop 1 (argv (run_with [''install'', ''configuration''])) =
     [''install'', ''configuration''] \<and>
   getuser (run_with [''install'', ''configuration'']) \<noteq> ''travis'' \<and>
   environment_setup (run_with [''install'', ''configuration''])
     ''/home/pattoo/pattoo-venv'' = Returns \<and>
   configure_install (run_with [''install'', ''configuration'']) daemon_list
     ''/home/pattoo'' = Returns \<and>
   main (run_with [''install'', ''configuration'']) =
     ([Call (EnvironmentSetup ''/home/pattoo/pattoo-venv''),
       Write Stdout (Line ''Installing configuration''),
       Call (ConfigureInstall
         [''pattoo_agent_linux_autonomousd'', ''pattoo_agent_linux_spoked'',
          ''pattoo_agent_linux_hubd''] ''/home/pattoo''),
       done_message], Inr ())"
proof -
  let ?w = "run_with [''install'', ''configuration'']"
  have h1: "passwd_db ?w ''pattoo'' = None"
    by (simp add: run_with_def example_world_def)
  have h2: "drop 1 (argv ?w) = [''install'', ''configuration'']"
    by (simp only: run_with_simps(1))
  have h3: "getuser ?w \<noteq> ''travis''" by (simp add: run_with_def example_world_def)
  have h4: "environment_setup ?w ''/home/pattoo/pattoo-venv'' = Returns"
    by (simp add: run_with_def example_world_def)
  have h5: "configure_install ?w daemon_list ''/home/pattoo'' = Returns"
    by (simp add: run_with_simps)
  from install_configuration_scenario [OF h1 h2 h3 h4 h5]
  have "main ?w =
     ([Call (EnvironmentSetup ''/home/pattoo/pattoo-venv''),
       Write Stdout (Line ''Installing configuration''),
       Call (ConfigureInstall
         [''pattoo_agent_linux_autonomousd'', ''pattoo_agent_linux_spoked'',
          ''pattoo_agent_linux_hubd''] ''/home/pattoo''),
       done_message], Inr ())"
    by (simp add: run_with_simps)
  with h1 h2 h3 h4 h5 show ?thesis by blast
qed

subsection \<open>install pip\<close>

text \<open>
  C6: in every run parsed as \<open>install pip\<close>, the only call of an installation
  collaborator is one call of \<open>packages.install\<close>, with the root directory, the
  virtual environment directory and, unchanged, the value of \<open>args.verbose\<close>; that
  value is \<open>True\<close> for \<open>install pip --verbose\<close> and \<open>False\<close> for \<open>install pip\<close>.
\<close>

theorem pip_verbose_propagated:
  assumes "snd (main_virtualenv w) = Inr (pattoo_home, venv_dir, installation_dir)"
    and "parse_args (drop 1 (argv w)) = Inr args"
    and "args ''action'' = Some (PStr ''install'')"
    and "args ''qualifier'' = Some (PStr ''pip'')"
  shows "(\<exists>verbose. args ''verbose'' = Some verbose \<and>
       filter is_install_call (fst (main w)) =
         [Call (PackagesInstall (ROOT_DIR w) venv_dir verbose)]) \<and>
     parse_args [''install'', ''pip'', ''--verbose''] =
       Inr [''action'' \<mapsto> PStr ''install'', ''qualifier'' \<mapsto> PStr ''pip'',
            ''verbose'' \<mapsto> PBool True] \<and>
     parse_args [''install'', ''pip''] =
       Inr [''action'' \<mapsto> PStr ''install'', ''qualifier'' \<mapsto> PStr ''pip'',
            ''verbose'' \<mapsto> PBool False]"
proof -
  from main_install [OF assms, simplified] obtain verbose where
    v: "args ''verbose'' = Some verbose" and
    m: "main w =
       (fst (installation_checks w) @ fst (main_virtualenv w) @
          Write Stdout (Line (banner ''pip'')) #
          map Call (steps_made (answered w
            (qualifier_calls w pattoo_home venv_dir installation_dir verbose ''pip''))) @
          (case steps_result (answered w
             (qualifier_calls w pattoo_home venv_dir installation_dir verbose ''pip'')) of
             Inr _ \<Rightarrow> [done_message] | Inl _ \<Rightarrow> []),
        steps_result (answered w
          (qualifier_calls w pattoo_home venv_dir installation_dir verbose ''pip'')))"
    by blast
  have start: "filter is_install_call (fst (installation_checks w) @ fst (main_virtualenv w)) = []"
    using startup_no_install [of w] unfolding list_all_iff filter_empty_conv by blast
  have made: "steps_made (answered w [PackagesInstall (ROOT_DIR w) venv_dir verbose]) =
      [PackagesInstall (ROOT_DIR w) venv_dir verbose]"
    by (cases "packages_install w (ROOT_DIR w) venv_dir verbose") (simp_all add: answered_def)
  have "filter is_install_call (fst (main w)) =
         [Call (PackagesInstall (ROOT_DIR w) venv_dir verbose)]"
    unfolding m using start
    by (simp add: qualifier_calls_def made split: sum.splits)
  with v show ?thesis
    using parse_args_install_pip_verbose parse_args_install_pip by blast
qed

text \<open>C6, at \<open>install pip --verbose\<close> in the example world.\<close>

theorem pip_verbose_propagated_witness:
  "snd (main_virtualenv (run_with [''install'', ''pip'', ''--verbose''])) =
     Inr (''/home/pattoo'', ''/home/pattoo/pattoo-venv'',
          ''/home/pattoo/pattoo-venv/bin/python3 /opt/pattoo-agent-linux'') \<and>
   parse_args (drop 1 (argv (run_with [''install'', ''pip'', ''--verbose'']))) =
     Inr [''action'' \<mapsto> PStr ''install'', ''qualifier'' \<mapsto> PStr ''pip'',
          ''verbose'' \<mapsto> PBool True] \<and>
   filter is_install_call (fst (main (run_with [''install'', ''pip'', ''--verbose'']))) =
     [Call (PackagesInstall ''/opt/pattoo-agent-linux'' ''/home/pattoo/pattoo-venv''
        (PBool True))]"
proof -
  let ?w = "run_with [''install'', ''pip'', ''--verbose'']"
  let ?args = "[''action'' \<mapsto> PStr ''install'', ''qualifier'' \<mapsto> PStr ''pip'',
          ''verbose'' \<mapsto> PBool True]"
  have h1: "snd (main_virtualenv ?w) =
     Inr (''/home/pattoo'', ''/home/pattoo/pattoo-venv'',
          ''/home/pattoo/pattoo-venv/bin/python3 /opt/pattoo-agent-linux'')"
    by (simp add: run_with_simps)
  have h2: "parse_args (drop 1 (argv ?w)) = Inr ?args"
    by (simp only: run_with_simps(1) parse_args_install_pip_verbose)
  have h3: "?args ''action'' = Some (PStr ''install'')" by simp
  have h4: "?args ''qualifier'' = Some (PStr ''pip'')" by simp
  from pip_verbose_propagated [OF h1 h2 h3 h4] obtain verbose where
    v: "?args ''verbose'' = Some verbose" and
    f: "filter is_install_call (fst (main ?w)) =
         [Call (PackagesInstall (ROOT_DIR ?w) ''/home/pattoo/pattoo-venv'' verbose)]"
    by blast
  from v have "verbose = PBool True" by simp
  with f have "filter is_install_call (fst (main ?w)) =
     [Call (PackagesInstall ''/opt/pattoo-agent-linux'' ''/home/pattoo/pattoo-venv''
        (PBool True))]"
    by (simp add: run_with_simps)
  with h1 h2 show ?thesis by blast
qed

subsection \<open>installation_checks on a violated precondition\<close>

text \<open>
  C9, as stated, fails where \<open>virtualenv\<close> is not importable: for a user who is
  neither \<open>root\<close> nor \<open>travis\<close>, in a directory under \<open>/home\<close>,
  \<open>installation_checks\<close> does more than emit log messages.
\<close>

theorem installation_checks_not_only_logs:
  "getuser home_user_world \<noteq> ''root'' \<and> getuser home_user_world \<noteq> ''travis'' \<and>
   startswith (getcwd home_user_world) ''/home'' \<and>
   \<not> list_all is_log (fst (installation_checks home_user_world))"
  by code_simp

text \<open>
  C9, amended: for every invoking user other than \<open>root\<close> and \<open>travis\<close> and every
  working directory under \<open>/home\<close>, \<open>installation_checks\<close> emits the two log messages
  and, only when \<open>virtualenv\<close> is not importable, prints a notice and runs the
  \<open>pip3\<close> installation of \<open>virtualenv\<close>; it returns normally, and \<open>main\<close> goes on to
  set up the virtual environment.
\<close>

theorem installation_checks_never_halts:
  assumes "getuser w \<noteq> ''travis''" and "getuser w \<noteq> ''root''"
    and "startswith (getcwd w) ''/home''"
  shows "installation_checks w =
     ([Log ''You are currently not running the script as root.Run as root to continue'',
       Log ''You cloned the repository in a home related directory, please clone in a non-home directory to continue''] @
      (if virtualenv_importable w then []
       else [Write Stdout (Line ''virtualenv is not installed. Installing virtualenv''),
             RunScript (''pip3 install virtualenv -t '' @ default_path w)]),
      Inr ()) \<and>
     (\<exists>d rest. fst (main w) = fst (installation_checks w) @ Call (EnvironmentSetup d) # rest)"
proof -
  have "\<exists>d rest. fst (main w) = fst (installation_checks w) @ Call (EnvironmentSetup d) # rest"
    using assms(1)
    by (cases "snd (main_virtualenv w)")
       (auto simp: main_startup main_virtualenv_value Let_def split: outcome.splits)
  then show ?thesis using assms by (simp add: installation_checks_value)
qed

text \<open>C9, amended, at the user \<open>alice\<close>.\<close>

theorem installation_checks_never_halts_witness:
  "getuser home_user_world \<noteq> ''travis'' \<and> getuser home_user_world \<noteq> ''root'' \<and>
   startswith (getcwd home_user_world) ''/home'' \<and>
   installation_checks home_user_world =
     ([Log ''You are currently not running the script as root.Run as root to continue'',
       Log ''You cloned the repository in a home related directory, please clone in a non-home directory to continue'',
       Write Stdout (Line ''virtualenv is not installed. Installing virtualenv''),
       RunScript ''pip3 install virtualenv -t /root/.local/lib/python3.6/site-packages''],
      Inr ())"
proof -
  have h1: "getuser home_user_world \<noteq> ''travis''" by code_simp
  have h2: "getuser home_user_world \<noteq> ''root''" by code_simp
  have h3: "startswith (getcwd home_user_world) ''/home''" by code_simp
  have v: "\<not> virtualenv_importable home_user_world" by code_simp
  have d: "default_path home_user_world = ''/root/.local/lib/python3.6/site-packages''"
    by code_simp
  from installation_checks_never_halts [OF h1 h2 h3] v d
  have "installation_checks home_user_world =
     ([Log ''You are currently not running the script as root.Run as root to continue'',
       Log ''You cloned the repository in a home related directory, please clone in a non-home directory to continue'',
       Write Stdout (Line ''virtualenv is not installed. Installing virtualenv''),
       RunScript ''pip3 install virtualenv -t /root/.local/lib/python3.6/site-packages''],
      Inr ())" by simp
  with h1 h2 h3 show ?thesis by blast
qed

end
